theory Spec2Isabelle
  imports Complex_Main
begin

section \<open>Data model\<close>

text \<open>
  The C type \<open>real\<close> is modelled by the mathematical reals, so every statement below is
  about exact arithmetic. A division whose divisor is zero has no real value (the C
  program produces a non-finite number there); the model makes such a division an
  explicit failure, the value \<open>None\<close> of the enclosing loop.

  A field \<open>real ***U\<close> is a function of its three indices. The program only ever
  indexes inside the allocated extent \<open>(LEN+2) \<times> (HIG+2) \<times> (DEP+2)\<close>.

  Identifiers of the source that end in an underscore are not names in Isabelle; the
  underscore is followed by \<open>f\<close> here: \<open>filter_\<close> is \<open>filter_f\<close>, \<open>u_\<close> is \<open>u_f\<close>,
  \<open>U__\<close> is \<open>U_ff\<close>, \<open>A11_\<close> is \<open>A11_f\<close>. The macro \<open>_2deltaX\<close> is \<open>c_2deltaX\<close>.
\<close>

type_synonym field = "nat \<Rightarrow> nat \<Rightarrow> nat \<Rightarrow> real"

text \<open>
  The parameters of \<open>def.h\<close>, which is not among the sources: the interior extents, the
  three difference factors, the squared filter width \<open>DD\<close> and the guard \<open>small\<close> are taken
  as they come.
\<close>

record config =
  LEN :: nat
  HIG :: nat
  DEP :: nat
  c_2deltaX :: real
  c_2deltaY :: real
  c_2deltaZ :: real
  DD :: real
  small :: real

text \<open>
  Modelled from the spec: \<open>def.h\<close> with the macros \<open>LENN\<close>, \<open>HIGG\<close>, \<open>DEPP\<close> is missing.
  Every field is stored over \<open>(LEN+2) \<times> (HIG+2) \<times> (DEP+2)\<close> cells, one ghost layer on
  every face, and the interior loops \<open>for (i = 1; i < LENN; i++)\<close> visit the \<open>LEN\<close>
  interior cells (the writer in \<open>output.c\<close> announces \<open>LEN\<close> points per line for exactly
  this loop), hence \<open>LENN = LEN + 1\<close>, and likewise for the other two axes.
\<close>

definition LENN :: "config \<Rightarrow> nat" where
  "LENN cfg = LEN cfg + 1"

definition HIGG :: "config \<Rightarrow> nat" where
  "HIGG cfg = HIG cfg + 1"

definition DEPP :: "config \<Rightarrow> nat" where
  "DEPP cfg = DEP cfg + 1"

text \<open>The assignment \<open>A[i][j][k] = x\<close>.\<close>

definition put :: "field \<Rightarrow> nat \<Rightarrow> nat \<Rightarrow> nat \<Rightarrow> real \<Rightarrow> field" where
  "put A i j k x = A(i := (A i)(j := (A i j)(k := x)))"

text \<open>The loop \<open>for (i = lo; i < hi; i++) body\<close> on a state.\<close>

definition for_loop :: "nat \<Rightarrow> nat \<Rightarrow> (nat \<Rightarrow> 's \<Rightarrow> 's) \<Rightarrow> 's \<Rightarrow> 's" where
  "for_loop lo hi body s = fold body [lo..<hi] s"

text \<open>The same loop with a body that can fail: the first failure ends the run.\<close>

primrec run_opt :: "('a \<Rightarrow> 's \<Rightarrow> 's option) \<Rightarrow> 'a list \<Rightarrow> 's \<Rightarrow> 's option" where
  "run_opt body [] s = Some s"
| "run_opt body (x # xs) s = (case body x s of None \<Rightarrow> None | Some t \<Rightarrow> run_opt body xs t)"

definition for_loop_opt :: "nat \<Rightarrow> nat \<Rightarrow> (nat \<Rightarrow> 's \<Rightarrow> 's option) \<Rightarrow> 's \<Rightarrow> 's option" where
  "for_loop_opt lo hi body s = run_opt body [lo..<hi] s"

section \<open>The separable filter\<close>

text \<open>
  The three arrays that \<open>filter_\<close> touches: its argument \<open>U\<close> and the two buffers \<open>U_\<close> and
  \<open>U__\<close> it obtains from \<open>Array3D\<close>. The allocator is not among the sources; what a fresh
  array holds is left open, so the initial contents of the two buffers are arguments of
  the model.
\<close>

record filter_state =
  U :: field
  U_f :: field
  U_ff :: field

definition filter_pass1 :: "config \<Rightarrow> (nat \<Rightarrow> real) \<Rightarrow> filter_state \<Rightarrow> filter_state" where
  "filter_pass1 cfg h =
     for_loop 0 (LENN cfg) (\<lambda>i. for_loop 1 (HIGG cfg) (\<lambda>j. for_loop 0 (DEPP cfg) (\<lambda>k s.
       let tmp = for_loop 0 3 (\<lambda>l tmp. tmp + U s i (j + l - 1) k * h l) 0
       in s\<lparr>U_ff := put (U_ff s) i j k tmp\<rparr>)))"

definition filter_pass2 :: "config \<Rightarrow> (nat \<Rightarrow> real) \<Rightarrow> filter_state \<Rightarrow> filter_state" where
  "filter_pass2 cfg h =
     for_loop 0 (LENN cfg) (\<lambda>i. for_loop 0 (HIGG cfg) (\<lambda>j. for_loop 1 (DEPP cfg) (\<lambda>k s.
       let tmp = for_loop 0 3 (\<lambda>l tmp. tmp + U_ff s i j (k + l - 1) * h l) 0
       in s\<lparr>U_f := put (U_f s) i j k tmp\<rparr>)))"

definition filter_pass3 :: "config \<Rightarrow> (nat \<Rightarrow> real) \<Rightarrow> filter_state \<Rightarrow> filter_state" where
  "filter_pass3 cfg h =
     for_loop 1 (LENN cfg) (\<lambda>i. for_loop 0 (HIGG cfg) (\<lambda>j. for_loop 0 (DEPP cfg) (\<lambda>k s.
       let tmp = for_loop 0 3 (\<lambda>l tmp. tmp + U_f s (i + l - 1) j k * h l) 0
       in s\<lparr>U_ff := put (U_ff s) i j k tmp\<rparr>)))"

definition filter_run :: "config \<Rightarrow> (nat \<Rightarrow> real) \<Rightarrow> filter_state \<Rightarrow> filter_state" where
  "filter_run cfg h s = filter_pass3 cfg h (filter_pass2 cfg h (filter_pass1 cfg h s))"

text \<open>
  \<open>filter_(U, h)\<close>: \<open>a\<close> and \<open>b\<close> are the fresh arrays \<open>U_\<close> and \<open>U__\<close>; the result is the array
  \<open>U__\<close> that the function returns.
\<close>

definition filter_f :: "config \<Rightarrow> field \<Rightarrow> field \<Rightarrow> field \<Rightarrow> (nat \<Rightarrow> real) \<Rightarrow> field" where
  "filter_f cfg a b U0 h = U_ff (filter_run cfg h \<lparr>U = U0, U_f = a, U_ff = b\<rparr>)"

text \<open>
  The cells each pass assigns, read off the loop bounds, and the cells of the result
  all of whose stencil values were assigned before they were read: the third pass
  assigns the cell, the second pass assigned the three cells it reads, and the first
  pass assigned the nine cells those read. (The first pass reads the argument only.)
\<close>

definition pass1_cells :: "config \<Rightarrow> (nat \<times> nat \<times> nat) set" where
  "pass1_cells cfg = {0..<LENN cfg} \<times> {1..<HIGG cfg} \<times> {0..<DEPP cfg}"

definition pass2_cells :: "config \<Rightarrow> (nat \<times> nat \<times> nat) set" where
  "pass2_cells cfg = {0..<LENN cfg} \<times> {0..<HIGG cfg} \<times> {1..<DEPP cfg}"

definition pass3_cells :: "config \<Rightarrow> (nat \<times> nat \<times> nat) set" where
  "pass3_cells cfg = {1..<LENN cfg} \<times> {0..<HIGG cfg} \<times> {0..<DEPP cfg}"

definition sources_defined :: "config \<Rightarrow> nat \<Rightarrow> nat \<Rightarrow> nat \<Rightarrow> bool" where
  "sources_defined cfg i j k \<longleftrightarrow>
     (i, j, k) \<in> pass3_cells cfg \<and>
     (\<forall>l \<in> {0..<3}. (i + l - 1, j, k) \<in> pass2_cells cfg \<and>
        (\<forall>m \<in> {0..<3}. (i + l - 1, j, k + m - 1) \<in> pass1_cells cfg))"

text \<open>The cells inside the ghost layer, \<open>1 \<le> i < LENN\<close> and so on, and all cells.\<close>

definition interior :: "config \<Rightarrow> (nat \<times> nat \<times> nat) set" where
  "interior cfg = {1..<LENN cfg} \<times> {1..<HIGG cfg} \<times> {1..<DEPP cfg}"

definition padded :: "config \<Rightarrow> (nat \<times> nat \<times> nat) set" where
  "padded cfg = {0..<LENN cfg + 1} \<times> {0..<HIGG cfg + 1} \<times> {0..<DEPP cfg + 1}"

text \<open>The value \<open>tmp\<close> of the innermost loop, and what the passes leave behind (used in proofs).\<close>

definition tap3 :: "(nat \<Rightarrow> real) \<Rightarrow> real \<Rightarrow> real \<Rightarrow> real \<Rightarrow> real" where
  "tap3 h x0 x1 x2 = 0 + x0 * h 0 + x1 * h 1 + x2 * h 2"

definition pass1_res :: "(nat \<times> nat \<times> nat) set \<Rightarrow> (nat \<Rightarrow> real) \<Rightarrow> filter_state \<Rightarrow> filter_state" where
  "pass1_res X h s = s\<lparr>U_ff := (\<lambda>a b c. if (a, b, c) \<in> X
      then tap3 h (U s a (b - 1) c) (U s a b c) (U s a (b + 1) c) else U_ff s a b c)\<rparr>"

definition pass2_res :: "(nat \<times> nat \<times> nat) set \<Rightarrow> (nat \<Rightarrow> real) \<Rightarrow> filter_state \<Rightarrow> filter_state" where
  "pass2_res X h s = s\<lparr>U_f := (\<lambda>a b c. if (a, b, c) \<in> X
      then tap3 h (U_ff s a b (c - 1)) (U_ff s a b c) (U_ff s a b (c + 1)) else U_f s a b c)\<rparr>"

definition pass3_res :: "(nat \<times> nat \<times> nat) set \<Rightarrow> (nat \<Rightarrow> real) \<Rightarrow> filter_state \<Rightarrow> filter_state" where
  "pass3_res X h s = s\<lparr>U_ff := (\<lambda>a b c. if (a, b, c) \<in> X
      then tap3 h (U_f s (a - 1) b c) (U_f s a b c) (U_f s (a + 1) b c) else U_ff s a b c)\<rparr>"

section \<open>The dynamic Smagorinsky procedure\<close>

text \<open>
  All arrays that \<open>DynamicSmagorinsky\<close> can reach: the five arrays of the caller, taken to
  be five different arrays, and the arrays the function allocates or receives from
  \<open>filter_\<close>. On entry the fields of the locally allocated arrays hold whatever
  \<open>Array3D\<close> returned. The calls of \<open>free3D\<close> at the end are not modelled: the final state
  still shows the local arrays.
\<close>

record ds_state =
  rho :: field
  ru :: field
  rv :: field
  rw :: field
  mu_SGS :: field
  magStrain :: field
  u :: field
  v :: field
  w :: field
  u_f :: field
  v_f :: field
  w_f :: field
  uu_f :: field
  uv_f :: field
  uw_f :: field
  vu_f :: field
  vv_f :: field
  vw_f :: field
  wu_f :: field
  wv_f :: field
  ww_f :: field
  L11 :: field
  L12 :: field
  L13 :: field
  L21 :: field
  L22 :: field
  L23 :: field
  L31 :: field
  L32 :: field
  L33 :: field
  A11 :: field
  A12 :: field
  A13 :: field
  A21 :: field
  A22 :: field
  A23 :: field
  A31 :: field
  A32 :: field
  A33 :: field
  A11_f :: field
  A12_f :: field
  A13_f :: field
  A21_f :: field
  A22_f :: field
  A23_f :: field
  A31_f :: field
  A32_f :: field
  A33_f :: field
  B11_f :: field
  B12_f :: field
  B13_f :: field
  B21_f :: field
  B22_f :: field
  B23_f :: field
  B31_f :: field
  B32_f :: field
  B33_f :: field

text \<open>Nine local variables such as \<open>S11, \<dots>, S33\<close> or \<open>M11, \<dots>, M33\<close>.\<close>

record tensor =
  c11 :: real
  c12 :: real
  c13 :: real
  c21 :: real
  c22 :: real
  c23 :: real
  c31 :: real
  c32 :: real
  c33 :: real

text \<open>\<open>real FilterKer[3] = { 1./3., 1./3., 1./3. }\<close>\<close>

definition FilterKer :: "nat \<Rightarrow> real" where
  "FilterKer l = 1 / 3"

text \<open>The change from conservative to primitive variables, over all cells.\<close>

definition prim_step :: "nat \<Rightarrow> nat \<Rightarrow> nat \<Rightarrow> ds_state \<Rightarrow> ds_state" where
  "prim_step i j k s =
     (let rr = 1 / rho s i j k
      in s\<lparr>u := put (u s) i j k (ru s i j k * rr),
           v := put (v s) i j k (rv s i j k * rr),
           w := put (w s) i j k (rw s i j k * rr)\<rparr>)"

definition prim_body :: "nat \<Rightarrow> nat \<Rightarrow> nat \<Rightarrow> ds_state \<Rightarrow> ds_state option" where
  "prim_body i j k s = (if rho s i j k = 0 then None else Some (prim_step i j k s))"

definition primitive_loop :: "config \<Rightarrow> ds_state \<Rightarrow> ds_state option" where
  "primitive_loop cfg =
     for_loop_opt 0 (LENN cfg + 1) (\<lambda>i. for_loop_opt 0 (HIGG cfg + 1) (\<lambda>j.
       for_loop_opt 0 (DEPP cfg + 1) (\<lambda>k. prim_body i j k)))"

text \<open>The unfiltered products, stored in the arrays of the Leonard tensor.\<close>

definition product_body :: "nat \<Rightarrow> nat \<Rightarrow> nat \<Rightarrow> ds_state \<Rightarrow> ds_state" where
  "product_body i j k s =
     s\<lparr>L11 := put (L11 s) i j k (u s i j k * u s i j k),
       L12 := put (L12 s) i j k (u s i j k * v s i j k),
       L13 := put (L13 s) i j k (u s i j k * w s i j k),
       L21 := put (L21 s) i j k (v s i j k * u s i j k),
       L22 := put (L22 s) i j k (v s i j k * v s i j k),
       L23 := put (L23 s) i j k (v s i j k * w s i j k),
       L31 := put (L31 s) i j k (w s i j k * u s i j k),
       L32 := put (L32 s) i j k (w s i j k * v s i j k),
       L33 := put (L33 s) i j k (w s i j k * w s i j k)\<rparr>"

definition product_loop :: "config \<Rightarrow> ds_state \<Rightarrow> ds_state" where
  "product_loop cfg =
     for_loop 0 (LENN cfg + 1) (\<lambda>i. for_loop 0 (HIGG cfg + 1) (\<lambda>j.
       for_loop 0 (DEPP cfg + 1) (\<lambda>k. product_body i j k)))"

text \<open>
  The twelve calls of \<open>filter_\<close> on the velocities and on the products. \<open>mem n\<close> is the
  \<open>n\<close>-th array that \<open>Array3D\<close> hands out inside the calls of \<open>filter_\<close> (two per call,
  \<open>U_\<close> first). No right-hand side reads an array assigned here.
\<close>

definition filter_velocities :: "config \<Rightarrow> (nat \<Rightarrow> field) \<Rightarrow> ds_state \<Rightarrow> ds_state" where
  "filter_velocities cfg mem s =
     s\<lparr>u_f := filter_f cfg (mem 0) (mem 1) (u s) FilterKer,
       v_f := filter_f cfg (mem 2) (mem 3) (v s) FilterKer,
       w_f := filter_f cfg (mem 4) (mem 5) (w s) FilterKer,
       uu_f := filter_f cfg (mem 6) (mem 7) (L11 s) FilterKer,
       uv_f := filter_f cfg (mem 8) (mem 9) (L12 s) FilterKer,
       uw_f := filter_f cfg (mem 10) (mem 11) (L13 s) FilterKer,
       vu_f := filter_f cfg (mem 12) (mem 13) (L21 s) FilterKer,
       vv_f := filter_f cfg (mem 14) (mem 15) (L22 s) FilterKer,
       vw_f := filter_f cfg (mem 16) (mem 17) (L23 s) FilterKer,
       wu_f := filter_f cfg (mem 18) (mem 19) (L31 s) FilterKer,
       wv_f := filter_f cfg (mem 20) (mem 21) (L32 s) FilterKer,
       ww_f := filter_f cfg (mem 22) (mem 23) (L33 s) FilterKer\<rparr>"

text \<open>
  The strain tensor of three velocity fields by central differences, the nine-term
  contraction of two tensors, and the magnitude \<open>sqrt(2 * S:S)\<close>. The argument of the root
  is a sum of squares, so the root is taken of a number that is not negative.
\<close>

definition strain :: "config \<Rightarrow> field \<Rightarrow> field \<Rightarrow> field \<Rightarrow> nat \<Rightarrow> nat \<Rightarrow> nat \<Rightarrow> tensor" where
  "strain cfg fu fv fw i j k =
     (let du_dx = (fu (i + 1) j k - fu (i - 1) j k) * c_2deltaX cfg;
          du_dy = (fu i (j + 1) k - fu i (j - 1) k) * c_2deltaY cfg;
          du_dz = (fu i j (k + 1) - fu i j (k - 1)) * c_2deltaZ cfg;
          dv_dx = (fv (i + 1) j k - fv (i - 1) j k) * c_2deltaX cfg;
          dv_dy = (fv i (j + 1) k - fv i (j - 1) k) * c_2deltaY cfg;
          dv_dz = (fv i j (k + 1) - fv i j (k - 1)) * c_2deltaZ cfg;
          dw_dx = (fw (i + 1) j k - fw (i - 1) j k) * c_2deltaX cfg;
          dw_dy = (fw i (j + 1) k - fw i (j - 1) k) * c_2deltaY cfg;
          dw_dz = (fw i j (k + 1) - fw i j (k - 1)) * c_2deltaZ cfg
      in \<lparr>c11 = du_dx,
          c12 = 0.5 * (du_dy + dv_dx),
          c13 = 0.5 * (du_dz + dw_dx),
          c21 = 0.5 * (dv_dx + du_dy),
          c22 = dv_dy,
          c23 = 0.5 * (dv_dz + dw_dy),
          c31 = 0.5 * (dw_dx + du_dz),
          c32 = 0.5 * (dw_dy + dv_dz),
          c33 = dw_dz\<rparr>)"

text \<open>
  The cells at which \<open>strain\<close> reads its three fields for the cell \<open>(i, j, k)\<close>, and all cells
  that the central differences of the interior loop read.
\<close>

definition stencil_cells :: "nat \<Rightarrow> nat \<Rightarrow> nat \<Rightarrow> (nat \<times> nat \<times> nat) set" where
  "stencil_cells i j k =
     {(i + 1, j, k), (i - 1, j, k), (i, j + 1, k), (i, j - 1, k), (i, j, k + 1), (i, j, k - 1)}"

definition difference_cells :: "config \<Rightarrow> (nat \<times> nat \<times> nat) set" where
  "difference_cells cfg = (\<Union>(i, j, k) \<in> interior cfg. stencil_cells i j k)"

definition contract :: "tensor \<Rightarrow> tensor \<Rightarrow> real" where
  "contract X Y =
     c11 X * c11 Y + c12 X * c12 Y + c13 X * c13 Y
     + c21 X * c21 Y + c22 X * c22 Y + c23 X * c23 Y
     + c31 X * c31 Y + c32 X * c32 Y + c33 X * c33 Y"

definition magnitude :: "tensor \<Rightarrow> real" where
  "magnitude X = sqrt (2 * contract X X)"

text \<open>
  The loop over the interior that forms the Leonard stresses, the strain of the
  unfiltered and of the filtered velocities, \<open>magStrain\<close>, \<open>B\<close> and \<open>A\<close>.
\<close>

definition strain_body :: "config \<Rightarrow> nat \<Rightarrow> nat \<Rightarrow> nat \<Rightarrow> ds_state \<Rightarrow> ds_state" where
  "strain_body cfg i j k s =
     (let s = s\<lparr>L11 := put (L11 s) i j k (uu_f s i j k - u_f s i j k * u_f s i j k),
                L12 := put (L12 s) i j k (uv_f s i j k - u_f s i j k * v_f s i j k),
                L13 := put (L13 s) i j k (uw_f s i j k - u_f s i j k * w_f s i j k),
                L21 := put (L21 s) i j k (vu_f s i j k - v_f s i j k * u_f s i j k),
                L22 := put (L22 s) i j k (vv_f s i j k - v_f s i j k * v_f s i j k),
                L23 := put (L23 s) i j k (vw_f s i j k - v_f s i j k * w_f s i j k),
                L31 := put (L31 s) i j k (wu_f s i j k - w_f s i j k * u_f s i j k),
                L32 := put (L32 s) i j k (wv_f s i j k - w_f s i j k * v_f s i j k),
                L33 := put (L33 s) i j k (ww_f s i j k - w_f s i j k * w_f s i j k)\<rparr>;
          S = strain cfg (u s) (v s) (w s) i j k;
          Sm = magnitude S;
          s = s\<lparr>magStrain := put (magStrain s) i j k Sm\<rparr>;
          Sf = strain cfg (u_f s) (v_f s) (w_f s) i j k;
          Sfm = magnitude Sf;
          s = s\<lparr>B11_f := put (B11_f s) i j k (Sfm * c11 Sf),
                B12_f := put (B12_f s) i j k (Sfm * c12 Sf),
                B13_f := put (B13_f s) i j k (Sfm * c13 Sf),
                B21_f := put (B21_f s) i j k (Sfm * c21 Sf),
                B22_f := put (B22_f s) i j k (Sfm * c22 Sf),
                B23_f := put (B23_f s) i j k (Sfm * c23 Sf),
                B31_f := put (B31_f s) i j k (Sfm * c31 Sf),
                B32_f := put (B32_f s) i j k (Sfm * c32 Sf),
                B33_f := put (B33_f s) i j k (Sfm * c33 Sf)\<rparr>
      in s\<lparr>A11 := put (A11 s) i j k (Sm * c11 S),
           A12 := put (A12 s) i j k (Sm * c12 S),
           A13 := put (A13 s) i j k (Sm * c13 S),
           A21 := put (A21 s) i j k (Sm * c21 S),
           A22 := put (A22 s) i j k (Sm * c22 S),
           A23 := put (A23 s) i j k (Sm * c23 S),
           A31 := put (A31 s) i j k (Sm * c31 S),
           A32 := put (A32 s) i j k (Sm * c32 S),
           A33 := put (A33 s) i j k (Sm * c33 S)\<rparr>)"

definition strain_loop :: "config \<Rightarrow> ds_state \<Rightarrow> ds_state" where
  "strain_loop cfg =
     for_loop 1 (LENN cfg) (\<lambda>i. for_loop 1 (HIGG cfg) (\<lambda>j.
       for_loop 1 (DEPP cfg) (\<lambda>k. strain_body cfg i j k)))"

text \<open>The nine calls of \<open>filter_\<close> on the components of \<open>A\<close>.\<close>

definition filter_A :: "config \<Rightarrow> (nat \<Rightarrow> field) \<Rightarrow> ds_state \<Rightarrow> ds_state" where
  "filter_A cfg mem s =
     s\<lparr>A11_f := filter_f cfg (mem 24) (mem 25) (A11 s) FilterKer,
       A12_f := filter_f cfg (mem 26) (mem 27) (A12 s) FilterKer,
       A13_f := filter_f cfg (mem 28) (mem 29) (A13 s) FilterKer,
       A21_f := filter_f cfg (mem 30) (mem 31) (A21 s) FilterKer,
       A22_f := filter_f cfg (mem 32) (mem 33) (A22 s) FilterKer,
       A23_f := filter_f cfg (mem 34) (mem 35) (A23 s) FilterKer,
       A31_f := filter_f cfg (mem 36) (mem 37) (A31 s) FilterKer,
       A32_f := filter_f cfg (mem 38) (mem 39) (A32 s) FilterKer,
       A33_f := filter_f cfg (mem 40) (mem 41) (A33 s) FilterKer\<rparr>"

text \<open>
  The last loop: the model tensor \<open>M\<close>, the deviatoric part of \<open>L\<close>, the two contractions,
  the coefficient, its clipping and the assignment to \<open>mu_SGS\<close>. The quotient
  \<open>LLMM/(MMMM + small)\<close> needs a divisor other than zero.
\<close>

definition Mten :: "config \<Rightarrow> ds_state \<Rightarrow> nat \<Rightarrow> nat \<Rightarrow> nat \<Rightarrow> tensor" where
  "Mten cfg s i j k =
     \<lparr>c11 = DD cfg * (4 * B11_f s i j k - A11_f s i j k),
      c12 = DD cfg * (4 * B12_f s i j k - A12_f s i j k),
      c13 = DD cfg * (4 * B13_f s i j k - A13_f s i j k),
      c21 = DD cfg * (4 * B21_f s i j k - A21_f s i j k),
      c22 = DD cfg * (4 * B22_f s i j k - A22_f s i j k),
      c23 = DD cfg * (4 * B23_f s i j k - A23_f s i j k),
      c31 = DD cfg * (4 * B31_f s i j k - A31_f s i j k),
      c32 = DD cfg * (4 * B32_f s i j k - A32_f s i j k),
      c33 = DD cfg * (4 * B33_f s i j k - A33_f s i j k)\<rparr>"

definition Lten :: "ds_state \<Rightarrow> nat \<Rightarrow> nat \<Rightarrow> nat \<Rightarrow> tensor" where
  "Lten s i j k =
     \<lparr>c11 = L11 s i j k,
      c12 = L12 s i j k,
      c13 = L13 s i j k,
      c21 = L21 s i j k,
      c22 = L22 s i j k,
      c23 = L23 s i j k,
      c31 = L31 s i j k,
      c32 = L32 s i j k,
      c33 = L33 s i j k\<rparr>"

definition clip :: "real \<Rightarrow> real" where
  "clip Cd = (if Cd > 0.15 then 0.15 else if Cd < 0.0 then 0.0 else Cd)"

definition coef_step :: "config \<Rightarrow> nat \<Rightarrow> nat \<Rightarrow> nat \<Rightarrow> ds_state \<Rightarrow> ds_state" where
  "coef_step cfg i j k s =
     (let M = Mten cfg s i j k;
          trace13 = - (1.0 / 3.0) * (L11 s i j k + L22 s i j k + L33 s i j k);
          s = s\<lparr>L11 := put (L11 s) i j k (L11 s i j k + trace13)\<rparr>;
          s = s\<lparr>L22 := put (L22 s) i j k (L22 s i j k + trace13)\<rparr>;
          s = s\<lparr>L33 := put (L33 s) i j k (L33 s i j k + trace13)\<rparr>;
          LLMM = contract (Lten s i j k) M;
          MMMM = contract M M;
          Cd = - 0.5 * (LLMM / (MMMM + small cfg));
          Cd = clip Cd
      in s\<lparr>mu_SGS := put (mu_SGS s) i j k (rho s i j k * Cd * DD cfg * magStrain s i j k)\<rparr>)"

definition coef_body :: "config \<Rightarrow> nat \<Rightarrow> nat \<Rightarrow> nat \<Rightarrow> ds_state \<Rightarrow> ds_state option" where
  "coef_body cfg i j k s =
     (if contract (Mten cfg s i j k) (Mten cfg s i j k) + small cfg = 0 then None
      else Some (coef_step cfg i j k s))"

definition coef_loop :: "config \<Rightarrow> ds_state \<Rightarrow> ds_state option" where
  "coef_loop cfg =
     for_loop_opt 1 (LENN cfg) (\<lambda>i. for_loop_opt 1 (HIGG cfg) (\<lambda>j.
       for_loop_opt 1 (DEPP cfg) (\<lambda>k. coef_body cfg i j k)))"

text \<open>The state in which the last loop starts, and the whole function.\<close>

definition before_coef :: "config \<Rightarrow> (nat \<Rightarrow> field) \<Rightarrow> ds_state \<Rightarrow> ds_state" where
  "before_coef cfg mem s =
     filter_A cfg mem (strain_loop cfg (filter_velocities cfg mem (product_loop cfg s)))"

definition DynamicSmagorinsky :: "config \<Rightarrow> (nat \<Rightarrow> field) \<Rightarrow> ds_state \<Rightarrow> ds_state option" where
  "DynamicSmagorinsky cfg mem s =
     (case primitive_loop cfg s of
        None \<Rightarrow> None
      | Some s1 \<Rightarrow> coef_loop cfg (before_coef cfg mem s1))"

text \<open>The contents of \<open>U__\<close> after the first pass and of \<open>U_\<close> after the second (used in proofs).\<close>

definition after1 :: "config \<Rightarrow> field \<Rightarrow> field \<Rightarrow> (nat \<Rightarrow> real) \<Rightarrow> field" where
  "after1 cfg b U0 h x y z = (if (x, y, z) \<in> pass1_cells cfg
     then tap3 h (U0 x (y - 1) z) (U0 x y z) (U0 x (y + 1) z) else b x y z)"

definition after2 :: "config \<Rightarrow> field \<Rightarrow> field \<Rightarrow> field \<Rightarrow> (nat \<Rightarrow> real) \<Rightarrow> field" where
  "after2 cfg a b U0 h x y z = (if (x, y, z) \<in> pass2_cells cfg
     then tap3 h (after1 cfg b U0 h x y (z - 1)) (after1 cfg b U0 h x y z) (after1 cfg b U0 h x y (z + 1))
     else a x y z)"

text \<open>
  What the four loops of \<open>DynamicSmagorinsky\<close> leave behind once they have visited the cells
  \<open>X\<close> (used in proofs), with the quantities of the last loop written as functions of the
  state in which it starts.
\<close>

definition dev_trace :: "ds_state \<Rightarrow> nat \<Rightarrow> nat \<Rightarrow> nat \<Rightarrow> real" where
  "dev_trace s i j k = - (1.0 / 3.0) * (L11 s i j k + L22 s i j k + L33 s i j k)"

definition Ldev :: "ds_state \<Rightarrow> nat \<Rightarrow> nat \<Rightarrow> nat \<Rightarrow> tensor" where
  "Ldev s i j k =
     (Lten s i j k)\<lparr>c11 := L11 s i j k + dev_trace s i j k,
                    c22 := L22 s i j k + dev_trace s i j k,
                    c33 := L33 s i j k + dev_trace s i j k\<rparr>"

definition Cd_of :: "config \<Rightarrow> ds_state \<Rightarrow> nat \<Rightarrow> nat \<Rightarrow> nat \<Rightarrow> real" where
  "Cd_of cfg s i j k =
     clip (- 0.5 * (contract (Ldev s i j k) (Mten cfg s i j k)
                    / (contract (Mten cfg s i j k) (Mten cfg s i j k) + small cfg)))"

definition prim_res :: "(nat \<times> nat \<times> nat) set \<Rightarrow> ds_state \<Rightarrow> ds_state" where
  "prim_res X s =
     s\<lparr>u := (\<lambda>a b c. if (a, b, c) \<in> X then ru s a b c * (1 / rho s a b c) else u s a b c),
       v := (\<lambda>a b c. if (a, b, c) \<in> X then rv s a b c * (1 / rho s a b c) else v s a b c),
       w := (\<lambda>a b c. if (a, b, c) \<in> X then rw s a b c * (1 / rho s a b c) else w s a b c)\<rparr>"

definition product_res :: "(nat \<times> nat \<times> nat) set \<Rightarrow> ds_state \<Rightarrow> ds_state" where
  "product_res X s =
     s\<lparr>L11 := (\<lambda>a b c. if (a, b, c) \<in> X then u s a b c * u s a b c else L11 s a b c),
       L12 := (\<lambda>a b c. if (a, b, c) \<in> X then u s a b c * v s a b c else L12 s a b c),
       L13 := (\<lambda>a b c. if (a, b, c) \<in> X then u s a b c * w s a b c else L13 s a b c),
       L21 := (\<lambda>a b c. if (a, b, c) \<in> X then v s a b c * u s a b c else L21 s a b c),
       L22 := (\<lambda>a b c. if (a, b, c) \<in> X then v s a b c * v s a b c else L22 s a b c),
       L23 := (\<lambda>a b c. if (a, b, c) \<in> X then v s a b c * w s a b c else L23 s a b c),
       L31 := (\<lambda>a b c. if (a, b, c) \<in> X then w s a b c * u s a b c else L31 s a b c),
       L32 := (\<lambda>a b c. if (a, b, c) \<in> X then w s a b c * v s a b c else L32 s a b c),
       L33 := (\<lambda>a b c. if (a, b, c) \<in> X then w s a b c * w s a b c else L33 s a b c)\<rparr>"

definition strain_res :: "config \<Rightarrow> (nat \<times> nat \<times> nat) set \<Rightarrow> ds_state \<Rightarrow> ds_state" where
  "strain_res cfg X s =
     s\<lparr>magStrain := (\<lambda>a b c. if (a, b, c) \<in> X then magnitude (strain cfg (u s) (v s) (w s) a b c) else magStrain s a b c),
       L11 := (\<lambda>a b c. if (a, b, c) \<in> X then uu_f s a b c - u_f s a b c * u_f s a b c else L11 s a b c),
       L12 := (\<lambda>a b c. if (a, b, c) \<in> X then uv_f s a b c - u_f s a b c * v_f s a b c else L12 s a b c),
       L13 := (\<lambda>a b c. if (a, b, c) \<in> X then uw_f s a b c - u_f s a b c * w_f s a b c else L13 s a b c),
       L21 := (\<lambda>a b c. if (a, b, c) \<in> X then vu_f s a b c - v_f s a b c * u_f s a b c else L21 s a b c),
       L22 := (\<lambda>a b c. if (a, b, c) \<in> X then vv_f s a b c - v_f s a b c * v_f s a b c else L22 s a b c),
       L23 := (\<lambda>a b c. if (a, b, c) \<in> X then vw_f s a b c - v_f s a b c * w_f s a b c else L23 s a b c),
       L31 := (\<lambda>a b c. if (a, b, c) \<in> X then wu_f s a b c - w_f s a b c * u_f s a b c else L31 s a b c),
       L32 := (\<lambda>a b c. if (a, b, c) \<in> X then wv_f s a b c - w_f s a b c * v_f s a b c else L32 s a b c),
       L33 := (\<lambda>a b c. if (a, b, c) \<in> X then ww_f s a b c - w_f s a b c * w_f s a b c else L33 s a b c),
       A11 := (\<lambda>a b c. if (a, b, c) \<in> X then magnitude (strain cfg (u s) (v s) (w s) a b c) * c11 (strain cfg (u s) (v s) (w s) a b c) else A11 s a b c),
       A12 := (\<lambda>a b c. if (a, b, c) \<in> X then magnitude (strain cfg (u s) (v s) (w s) a b c) * c12 (strain cfg (u s) (v s) (w s) a b c) else A12 s a b c),
       A13 := (\<lambda>a b c. if (a, b, c) \<in> X then magnitude (strain cfg (u s) (v s) (w s) a b c) * c13 (strain cfg (u s) (v s) (w s) a b c) else A13 s a b c),
       A21 := (\<lambda>a b c. if (a, b, c) \<in> X then magnitude (strain cfg (u s) (v s) (w s) a b c) * c21 (strain cfg (u s) (v s) (w s) a b c) else A21 s a b c),
       A22 := (\<lambda>a b c. if (a, b, c) \<in> X then magnitude (strain cfg (u s) (v s) (w s) a b c) * c22 (strain cfg (u s) (v s) (w s) a b c) else A22 s a b c),
       A23 := (\<lambda>a b c. if (a, b, c) \<in> X then magnitude (strain cfg (u s) (v s) (w s) a b c) * c23 (strain cfg (u s) (v s) (w s) a b c) else A23 s a b c),
       A31 := (\<lambda>a b c. if (a, b, c) \<in> X then magnitude (strain cfg (u s) (v s) (w s) a b c) * c31 (strain cfg (u s) (v s) (w s) a b c) else A31 s a b c),
       A32 := (\<lambda>a b c. if (a, b, c) \<in> X then magnitude (strain cfg (u s) (v s) (w s) a b c) * c32 (strain cfg (u s) (v s) (w s) a b c) else A32 s a b c),
       A33 := (\<lambda>a b c. if (a, b, c) \<in> X then magnitude (strain cfg (u s) (v s) (w s) a b c) * c33 (strain cfg (u s) (v s) (w s) a b c) else A33 s a b c),
       B11_f := (\<lambda>a b c. if (a, b, c) \<in> X then magnitude (strain cfg (u_f s) (v_f s) (w_f s) a b c) * c11 (strain cfg (u_f s) (v_f s) (w_f s) a b c) else B11_f s a b c),
       B12_f := (\<lambda>a b c. if (a, b, c) \<in> X then magnitude (strain cfg (u_f s) (v_f s) (w_f s) a b c) * c12 (strain cfg (u_f s) (v_f s) (w_f s) a b c) else B12_f s a b c),
       B13_f := (\<lambda>a b c. if (a, b, c) \<in> X then magnitude (strain cfg (u_f s) (v_f s) (w_f s) a b c) * c13 (strain cfg (u_f s) (v_f s) (w_f s) a b c) else B13_f s a b c),
       B21_f := (\<lambda>a b c. if (a, b, c) \<in> X then magnitude (strain cfg (u_f s) (v_f s) (w_f s) a b c) * c21 (strain cfg (u_f s) (v_f s) (w_f s) a b c) else B21_f s a b c),
       B22_f := (\<lambda>a b c. if (a, b, c) \<in> X then magnitude (strain cfg (u_f s) (v_f s) (w_f s) a b c) * c22 (strain cfg (u_f s) (v_f s) (w_f s) a b c) else B22_f s a b c),
       B23_f := (\<lambda>a b c. if (a, b, c) \<in> X then magnitude (strain cfg (u_f s) (v_f s) (w_f s) a b c) * c23 (strain cfg (u_f s) (v_f s) (w_f s) a b c) else B23_f s a b c),
       B31_f := (\<lambda>a b c. if (a, b, c) \<in> X then magnitude (strain cfg (u_f s) (v_f s) (w_f s) a b c) * c31 (strain cfg (u_f s) (v_f s) (w_f s) a b c) else B31_f s a b c),
       B32_f := (\<lambda>a b c. if (a, b, c) \<in> X then magnitude (strain cfg (u_f s) (v_f s) (w_f s) a b c) * c32 (strain cfg (u_f s) (v_f s) (w_f s) a b c) else B32_f s a b c),
       B33_f := (\<lambda>a b c. if (a, b, c) \<in> X then magnitude (strain cfg (u_f s) (v_f s) (w_f s) a b c) * c33 (strain cfg (u_f s) (v_f s) (w_f s) a b c) else B33_f s a b c)\<rparr>"

definition coef_res :: "config \<Rightarrow> (nat \<times> nat \<times> nat) set \<Rightarrow> ds_state \<Rightarrow> ds_state" where
  "coef_res cfg X s =
     s\<lparr>mu_SGS := (\<lambda>a b c. if (a, b, c) \<in> X then rho s a b c * Cd_of cfg s a b c * DD cfg * magStrain s a b c else mu_SGS s a b c),
       L11 := (\<lambda>a b c. if (a, b, c) \<in> X then L11 s a b c + dev_trace s a b c else L11 s a b c),
       L22 := (\<lambda>a b c. if (a, b, c) \<in> X then L22 s a b c + dev_trace s a b c else L22 s a b c),
       L33 := (\<lambda>a b c. if (a, b, c) \<in> X then L33 s a b c + dev_trace s a b c else L33 s a b c)\<rparr>"

text \<open>The state in which the function returns, when it returns.\<close>

definition final_state :: "config \<Rightarrow> (nat \<Rightarrow> field) \<Rightarrow> ds_state \<Rightarrow> ds_state" where
  "final_state cfg mem s =
     coef_res cfg (interior cfg) (before_coef cfg mem (prim_res (padded cfg) s))"

text \<open>
  The Leonard tensor as the third loop forms it from the filtered fields, and the removal
  of a third of the trace from the diagonal.
\<close>

definition Leonard :: "ds_state \<Rightarrow> nat \<Rightarrow> nat \<Rightarrow> nat \<Rightarrow> tensor" where
  "Leonard s i j k =
     \<lparr>c11 = uu_f s i j k - u_f s i j k * u_f s i j k,
      c12 = uv_f s i j k - u_f s i j k * v_f s i j k,
      c13 = uw_f s i j k - u_f s i j k * w_f s i j k,
      c21 = vu_f s i j k - v_f s i j k * u_f s i j k,
      c22 = vv_f s i j k - v_f s i j k * v_f s i j k,
      c23 = vw_f s i j k - v_f s i j k * w_f s i j k,
      c31 = wu_f s i j k - w_f s i j k * u_f s i j k,
      c32 = wv_f s i j k - w_f s i j k * v_f s i j k,
      c33 = ww_f s i j k - w_f s i j k * w_f s i j k\<rparr>"

definition deviator :: "tensor \<Rightarrow> tensor" where
  "deviator X =
     (let trace13 = - (1.0 / 3.0) * (c11 X + c22 X + c33 X)
      in X\<lparr>c11 := c11 X + trace13, c22 := c22 X + trace13, c33 := c33 X + trace13\<rparr>)"


definition zero_tensor :: tensor where
  "zero_tensor = \<lparr>c11 = 0, c12 = 0, c13 = 0, c21 = 0, c22 = 0, c23 = 0, c31 = 0, c32 = 0, c33 = 0\<rparr>"

section \<open>Concrete inputs\<close>

text \<open>
  Two small grids, with one and with two interior cells per axis, a kernel that copies
  its centre value, fresh arrays filled with a constant, and three entry states: a
  shear flow \<open>u = y\<close> of density one, a fluid at rest of a given density, and a fluid at
  rest whose density vanishes in one corner cell of the ghost layer.
\<close>

definition cfg1 :: config where
  "cfg1 = \<lparr>LEN = 1, HIG = 1, DEP = 1, c_2deltaX = 1 / 2, c_2deltaY = 1 / 2, c_2deltaZ = 1 / 2,
            DD = 1, small = 1\<rparr>"

definition cfg2 :: config where
  "cfg2 = \<lparr>LEN = 2, HIG = 2, DEP = 2, c_2deltaX = 1 / 2, c_2deltaY = 1 / 2, c_2deltaZ = 1 / 2,
            DD = 1, small = 1\<rparr>"

definition IdKer :: "nat \<Rightarrow> real" where
  "IdKer l = (if l = 1 then 1 else 0)"

definition filled :: "real \<Rightarrow> field" where
  "filled x = (\<lambda>a b c. x)"

definition ramp :: field where
  "ramp = (\<lambda>a b c. real (a + 2 * b + 4 * c))"

definition at_rest :: "field \<Rightarrow> ds_state" where
  "at_rest r =
     \<lparr>rho = r, ru = filled 0, rv = filled 0, rw = filled 0, mu_SGS = filled 7,
      magStrain = filled 0, u = filled 0, v = filled 0, w = filled 0,
      u_f = filled 0, v_f = filled 0, w_f = filled 0,
      uu_f = filled 0, uv_f = filled 0, uw_f = filled 0,
      vu_f = filled 0, vv_f = filled 0, vw_f = filled 0,
      wu_f = filled 0, wv_f = filled 0, ww_f = filled 0,
      L11 = filled 0, L12 = filled 0, L13 = filled 0,
      L21 = filled 0, L22 = filled 0, L23 = filled 0,
      L31 = filled 0, L32 = filled 0, L33 = filled 0,
      A11 = filled 0, A12 = filled 0, A13 = filled 0,
      A21 = filled 0, A22 = filled 0, A23 = filled 0,
      A31 = filled 0, A32 = filled 0, A33 = filled 0,
      A11_f = filled 0, A12_f = filled 0, A13_f = filled 0,
      A21_f = filled 0, A22_f = filled 0, A23_f = filled 0,
      A31_f = filled 0, A32_f = filled 0, A33_f = filled 0,
      B11_f = filled 0, B12_f = filled 0, B13_f = filled 0,
      B21_f = filled 0, B22_f = filled 0, B23_f = filled 0,
      B31_f = filled 0, B32_f = filled 0, B33_f = filled 0\<rparr>"

definition shear :: ds_state where
  "shear = (at_rest (filled 1))\<lparr>ru := (\<lambda>a b c. real b)\<rparr>"

definition corner_hole :: ds_state where
  "corner_hole = at_rest (\<lambda>a b c. if a = 0 \<and> b = 0 \<and> c = 0 then 0 else 1)"

section \<open>Basic facts about loops\<close>

lemma put_apply: "put A i j k x a b c = (if a = i \<and> b = j \<and> c = k then x else A a b c)"
  by (simp add: put_def)

lemma fold_product:
  "fold (\<lambda>x. fold (g x) ys) xs s = fold (\<lambda>(x, y). g x y) (List.product xs ys) s"
  by (induction xs arbitrary: s) (simp_all add: fold_map comp_def)

lemma fold_cells:
  assumes step: "\<And>x X. x \<notin> X \<Longrightarrow> f x (G X) = G (insert x X)"
  assumes "distinct xs" "set xs \<inter> X = {}"
  shows "fold f xs (G X) = G (X \<union> set xs)"
  using assms(2,3)
proof (induction xs arbitrary: X)
  case Nil
  then show ?case by simp
next
  case (Cons x xs)
  have "x \<notin> X" using Cons.prems by auto
  then have "f x (G X) = G (insert x X)" by (rule step)
  moreover have "fold f xs (G (insert x X)) = G (insert x X \<union> set xs)"
    using Cons.prems by (intro Cons.IH) auto
  ultimately show ?case by simp
qed

lemma for_loop3_cells:
  assumes init: "G {} = s"
  assumes step: "\<And>i j k X. (i, j, k) \<notin> X \<Longrightarrow> body i j k (G X) = G (insert (i, j, k) X)"
  shows "for_loop a b (\<lambda>i. for_loop c d (\<lambda>j. for_loop e f (\<lambda>k. body i j k))) s
         = G ({a..<b} \<times> {c..<d} \<times> {e..<f})"
proof -
  let ?xs = "List.product [a..<b] (List.product [c..<d] [e..<f])"
  let ?f = "\<lambda>(i, j, k). body i j k"
  have "for_loop a b (\<lambda>i. for_loop c d (\<lambda>j. for_loop e f (\<lambda>k. body i j k))) s
        = fold (\<lambda>i. fold (\<lambda>(j, k). body i j k) (List.product [c..<d] [e..<f])) [a..<b] s"
    unfolding for_loop_def by (simp add: fold_product [abs_def])
  also have "\<dots> = fold ?f ?xs s"
    by (simp add: fold_product)
  also have "\<dots> = fold ?f ?xs (G {})" by (simp add: init)
  also have "\<dots> = G ({} \<union> set ?xs)"
    by (rule fold_cells) (auto simp: step distinct_product)
  finally show ?thesis by simp
qed

lemma upt_0_3: "[0..<3] = [0, 1, 2]"
  by (simp add: upt_rec)

lemma tmp_loop: "for_loop 0 3 (\<lambda>l tmp. tmp + g l * h l) 0 = tap3 h (g 0) (g 1) (g 2)"
  by (simp add: for_loop_def upt_0_3 tap3_def)

lemma run_opt_append:
  "run_opt body (xs @ ys) s = (case run_opt body xs s of None \<Rightarrow> None | Some t \<Rightarrow> run_opt body ys t)"
  by (induction xs arbitrary: s) (simp_all split: option.splits)

lemma run_opt_map: "run_opt body (map p xs) s = run_opt (\<lambda>x. body (p x)) xs s"
  by (induction xs arbitrary: s) (simp_all split: option.splits)

lemma run_opt_product:
  "run_opt (\<lambda>x. run_opt (g x) ys) xs s = run_opt (\<lambda>(x, y). g x y) (List.product xs ys) s"
  by (induction xs arbitrary: s) (simp_all add: run_opt_append run_opt_map split: option.splits)

lemma run_opt_guarded:
  assumes body: "\<And>x t. body x t = (if g x t then Some (f x t) else None)"
  assumes keep: "\<And>x y t. g y (f x t) = g y t"
  shows "run_opt body xs s = (if \<forall>x \<in> set xs. g x s then Some (fold f xs s) else None)"
proof (induction xs arbitrary: s)
  case Nil
  then show ?case by simp
next
  case (Cons x xs)
  show ?case
  proof (cases "g x s")
    case True
    then have "run_opt body (x # xs) s = run_opt body xs (f x s)"
      by (simp add: body)
    also have "\<dots> = (if \<forall>y \<in> set xs. g y (f x s) then Some (fold f xs (f x s)) else None)"
      by (rule Cons.IH)
    finally show ?thesis using True by (simp add: keep)
  next
    case False
    then show ?thesis by (simp add: body)
  qed
qed

lemma for_loop_opt3:
  assumes body: "\<And>i j k t. body i j k t = (if g i j k t then Some (f i j k t) else None)"
  assumes keep: "\<And>i j k x y z t. g x y z (f i j k t) = g x y z t"
  shows "for_loop_opt a b (\<lambda>i. for_loop_opt c d (\<lambda>j. for_loop_opt e e' (\<lambda>k. body i j k))) s
         = (if \<forall>(i, j, k) \<in> {a..<b} \<times> {c..<d} \<times> {e..<e'}. g i j k s
            then Some (for_loop a b (\<lambda>i. for_loop c d (\<lambda>j. for_loop e e' (\<lambda>k. f i j k))) s)
            else None)"
proof -
  let ?xs = "List.product [a..<b] (List.product [c..<d] [e..<e'])"
  have "for_loop_opt a b (\<lambda>i. for_loop_opt c d (\<lambda>j. for_loop_opt e e' (\<lambda>k. body i j k))) s
        = run_opt (\<lambda>i. run_opt (\<lambda>(j, k). body i j k) (List.product [c..<d] [e..<e'])) [a..<b] s"
    unfolding for_loop_opt_def by (simp add: run_opt_product [abs_def])
  also have "\<dots> = run_opt (\<lambda>(i, j, k). body i j k) ?xs s"
    by (simp add: run_opt_product)
  also have "\<dots> = (if \<forall>x \<in> set ?xs. (\<lambda>(i, j, k). g i j k) x s
                    then Some (fold (\<lambda>(i, j, k). f i j k) ?xs s) else None)"
    by (rule run_opt_guarded) (auto simp: body keep)
  also have "fold (\<lambda>(i, j, k). f i j k) ?xs s
             = for_loop a b (\<lambda>i. for_loop c d (\<lambda>j. for_loop e e' (\<lambda>k. f i j k))) s"
    unfolding for_loop_def by (simp add: fold_product [abs_def] fold_product)
  finally show ?thesis by (simp add: case_prod_unfold)
qed

section \<open>What the filter computes\<close>

lemma filter_pass1_eq: "filter_pass1 cfg h s = pass1_res (pass1_cells cfg) h s"
  unfolding filter_pass1_def pass1_cells_def
  apply (rule for_loop3_cells [where G = "\<lambda>X. pass1_res X h s"])
   apply (simp add: pass1_res_def)
  apply (simp add: pass1_res_def tmp_loop Let_def)
  apply (auto simp add: fun_eq_iff put_apply)
  done

lemma filter_pass2_eq: "filter_pass2 cfg h s = pass2_res (pass2_cells cfg) h s"
  unfolding filter_pass2_def pass2_cells_def
  apply (rule for_loop3_cells [where G = "\<lambda>X. pass2_res X h s"])
   apply (simp add: pass2_res_def)
  apply (simp add: pass2_res_def tmp_loop Let_def)
  apply (auto simp add: fun_eq_iff put_apply)
  done

lemma filter_pass3_eq: "filter_pass3 cfg h s = pass3_res (pass3_cells cfg) h s"
  unfolding filter_pass3_def pass3_cells_def
  apply (rule for_loop3_cells [where G = "\<lambda>X. pass3_res X h s"])
   apply (simp add: pass3_res_def)
  apply (simp add: pass3_res_def tmp_loop Let_def)
  apply (auto simp add: fun_eq_iff put_apply)
  done

lemma filter_f_eq:
  "filter_f cfg a b U0 h i j k = (if (i, j, k) \<in> pass3_cells cfg
     then tap3 h (after2 cfg a b U0 h (i - 1) j k) (after2 cfg a b U0 h i j k) (after2 cfg a b U0 h (i + 1) j k)
     else after1 cfg b U0 h i j k)"
proof -
  let ?s1 = "pass1_res (pass1_cells cfg) h \<lparr>U = U0, U_f = a, U_ff = b\<rparr>"
  have 1: "U_ff ?s1 = after1 cfg b U0 h" "U_f ?s1 = a"
    by (simp_all add: fun_eq_iff after1_def pass1_res_def)
  have 2: "U_f (pass2_res (pass2_cells cfg) h ?s1) = after2 cfg a b U0 h"
    "U_ff (pass2_res (pass2_cells cfg) h ?s1) = after1 cfg b U0 h"
    unfolding pass2_res_def by (simp_all add: fun_eq_iff after2_def 1 split del: if_split cong: if_cong)
  show ?thesis
    unfolding filter_f_def filter_run_def filter_pass1_eq filter_pass2_eq filter_pass3_eq
    unfolding pass3_res_def [of _ _ "pass2_res _ _ _"]
    by (simp add: 2 split del: if_split cong: if_cong)
qed

lemma filter_run_input: "U (filter_run cfg h s) = U s"
  by (simp add: filter_run_def filter_pass1_eq filter_pass2_eq filter_pass3_eq
      pass1_res_def pass2_res_def pass3_res_def)

lemma ball_upt_0_3: "(\<forall>l \<in> {0..<3}. P l) \<longleftrightarrow> P 0 \<and> P 1 \<and> P (2::nat)"
proof -
  have "{0..<3::nat} = {0, 1, 2}" by auto
  then show ?thesis by simp
qed

lemma sources_defined_iff:
  "sources_defined cfg i j k \<longleftrightarrow>
     1 \<le> i \<and> i < LEN cfg \<and> 1 \<le> j \<and> j \<le> HIG cfg \<and> 1 \<le> k \<and> k < DEP cfg"
  unfolding sources_defined_def ball_upt_0_3
  by (simp add: pass1_cells_def pass2_cells_def pass3_cells_def LENN_def HIGG_def DEPP_def) arith

lemma tap3_identity: "h 0 = 0 \<Longrightarrow> h 1 = 1 \<Longrightarrow> h 2 = 0 \<Longrightarrow> tap3 h x0 x1 x2 = x1"
  by (simp add: tap3_def)

lemma tap3_const:
  assumes "h 0 + h 1 + h 2 = 1"
  shows "tap3 h c c c = c"
proof -
  have "tap3 h c c c = c * (h 0 + h 1 + h 2)"
    by (simp add: tap3_def algebra_simps)
  then show ?thesis using assms by simp
qed

lemma filter_junk_free:
  assumes "sources_defined cfg i j k"
  shows "filter_f cfg a b U0 h i j k = filter_f cfg a' b' U0 h i j k"
proof -
  have r: "1 \<le> i" "i < LEN cfg" "1 \<le> j" "j \<le> HIG cfg" "1 \<le> k" "k < DEP cfg"
    using assms by (simp_all add: sources_defined_iff)
  have a1: "after1 cfg b U0 h x y z = after1 cfg b' U0 h x y z"
    if "x \<le> LEN cfg" "1 \<le> y" "y \<le> HIG cfg" "z \<le> DEP cfg" for x y z
    using that by (simp add: after1_def pass1_cells_def LENN_def HIGG_def DEPP_def)
  have a2: "after2 cfg a b U0 h x j z = after2 cfg a' b' U0 h x j z"
    if "x \<le> LEN cfg" "1 \<le> z" "z < DEP cfg" for x z
    using that r by (simp add: after2_def pass2_cells_def LENN_def HIGG_def DEPP_def a1)
  show ?thesis
    using r by (simp add: filter_f_eq pass3_cells_def LENN_def HIGG_def DEPP_def a2)
qed

text \<open>
  At a cell all of whose stencil values were assigned, the result depends on the argument
  only, and there only on the 27 cells around it. On the last interior plane \<open>i = LEN\<close>
  the third pass takes in the cell \<open>(LEN+1, j, k)\<close> of the fresh buffer \<open>U_\<close> as \<open>Array3D\<close>
  left it.
\<close>

lemma filter_f_local:
  assumes d: "sources_defined cfg i j k"
  assumes e: "\<And>x y z. i - 1 \<le> x \<Longrightarrow> x \<le> i + 1 \<Longrightarrow> j - 1 \<le> y \<Longrightarrow> y \<le> j + 1 \<Longrightarrow>
                k - 1 \<le> z \<Longrightarrow> z \<le> k + 1 \<Longrightarrow> U0 x y z = V0 x y z"
  shows "filter_f cfg a b U0 h i j k = filter_f cfg a' b' V0 h i j k"
proof -
  have r: "1 \<le> i" "i < LEN cfg" "1 \<le> j" "j \<le> HIG cfg" "1 \<le> k" "k < DEP cfg"
    using d by (simp_all add: sources_defined_iff)
  have a1: "after1 cfg b U0 h x j z = after1 cfg b' V0 h x j z"
    if "i - 1 \<le> x" "x \<le> i + 1" "k - 1 \<le> z" "z \<le> k + 1" for x z
    using that r by (simp add: after1_def pass1_cells_def LENN_def HIGG_def DEPP_def e)
  have a2: "after2 cfg a b U0 h x j k = after2 cfg a' b' V0 h x j k"
    if "i - 1 \<le> x" "x \<le> i + 1" for x
    using that r by (simp add: after2_def pass2_cells_def LENN_def HIGG_def DEPP_def a1)
  show ?thesis
    using r by (simp add: filter_f_eq pass3_cells_def LENN_def HIGG_def DEPP_def a2)
qed

lemma filter_last_plane:
  assumes "(LEN cfg, j, k) \<in> interior cfg"
  shows "filter_f cfg a b U0 h (LEN cfg) j k =
           tap3 h (after2 cfg a b U0 h (LEN cfg - 1) j k) (after2 cfg a b U0 h (LEN cfg) j k)
                  (a (LEN cfg + 1) j k)"
  using assms
  by (simp add: filter_f_eq interior_def pass3_cells_def LENN_def HIGG_def DEPP_def)
     (simp add: after2_def [of _ _ _ _ _ "Suc _"] pass2_cells_def LENN_def)

lemma interior_not_all_defined:
  "\<not> sources_defined cfg (LEN cfg) j k" "\<not> sources_defined cfg i j (DEP cfg)"
  by (simp_all add: sources_defined_iff)


section \<open>What the loops of the procedure compute\<close>

lemma primitive_loop_eq:
  "primitive_loop cfg s =
     (if \<forall>(i, j, k) \<in> padded cfg. rho s i j k \<noteq> 0 then Some (prim_res (padded cfg) s) else None)"
proof -
  have step: "for_loop 0 (LENN cfg + 1) (\<lambda>i. for_loop 0 (HIGG cfg + 1) (\<lambda>j.
                for_loop 0 (DEPP cfg + 1) (\<lambda>k. prim_step i j k))) s = prim_res (padded cfg) s"
    unfolding padded_def
    apply (rule for_loop3_cells [where G = "\<lambda>X. prim_res X s"])
     apply (simp add: prim_res_def)
    apply (simp add: prim_res_def prim_step_def Let_def)
    apply (auto simp add: fun_eq_iff put_apply)
    done
  have "primitive_loop cfg s =
     (if \<forall>(i, j, k) \<in> padded cfg. rho s i j k \<noteq> 0
      then Some (for_loop 0 (LENN cfg + 1) (\<lambda>i. for_loop 0 (HIGG cfg + 1) (\<lambda>j.
                for_loop 0 (DEPP cfg + 1) (\<lambda>k. prim_step i j k))) s) else None)"
    unfolding primitive_loop_def padded_def
    by (rule for_loop_opt3) (simp_all add: prim_body_def prim_step_def Let_def)
  then show ?thesis by (simp only: step)
qed

lemma product_loop_eq: "product_loop cfg s = product_res (padded cfg) s"
  unfolding product_loop_def padded_def
  apply (rule for_loop3_cells [where G = "\<lambda>X. product_res X s"])
   apply (simp add: product_res_def)
  apply (simp add: product_res_def product_body_def)
  apply (auto simp add: fun_eq_iff put_apply)
  done

lemma strain_loop_eq: "strain_loop cfg s = strain_res cfg (interior cfg) s"
  unfolding strain_loop_def interior_def
  apply (rule for_loop3_cells [where G = "\<lambda>X. strain_res cfg X s"])
   apply (simp add: strain_res_def)
  apply (simp add: strain_res_def strain_body_def Let_def)
  apply (auto simp add: fun_eq_iff put_apply)
  done


lemma prim_res_frame [simp]:
  "rho (prim_res X s) = rho s"
  "ru (prim_res X s) = ru s"
  "rv (prim_res X s) = rv s"
  "rw (prim_res X s) = rw s"
  "mu_SGS (prim_res X s) = mu_SGS s"
  "magStrain (prim_res X s) = magStrain s"
  "u_f (prim_res X s) = u_f s"
  "v_f (prim_res X s) = v_f s"
  "w_f (prim_res X s) = w_f s"
  "uu_f (prim_res X s) = uu_f s"
  "uv_f (prim_res X s) = uv_f s"
  "uw_f (prim_res X s) = uw_f s"
  "vu_f (prim_res X s) = vu_f s"
  "vv_f (prim_res X s) = vv_f s"
  "vw_f (prim_res X s) = vw_f s"
  "wu_f (prim_res X s) = wu_f s"
  "wv_f (prim_res X s) = wv_f s"
  "ww_f (prim_res X s) = ww_f s"
  "L11 (prim_res X s) = L11 s"
  "L12 (prim_res X s) = L12 s"
  "L13 (prim_res X s) = L13 s"
  "L21 (prim_res X s) = L21 s"
  "L22 (prim_res X s) = L22 s"
  "L23 (prim_res X s) = L23 s"
  "L31 (prim_res X s) = L31 s"
  "L32 (prim_res X s) = L32 s"
  "L33 (prim_res X s) = L33 s"
  "A11 (prim_res X s) = A11 s"
  "A12 (prim_res X s) = A12 s"
  "A13 (prim_res X s) = A13 s"
  "A21 (prim_res X s) = A21 s"
  "A22 (prim_res X s) = A22 s"
  "A23 (prim_res X s) = A23 s"
  "A31 (prim_res X s) = A31 s"
  "A32 (prim_res X s) = A32 s"
  "A33 (prim_res X s) = A33 s"
  "A11_f (prim_res X s) = A11_f s"
  "A12_f (prim_res X s) = A12_f s"
  "A13_f (prim_res X s) = A13_f s"
  "A21_f (prim_res X s) = A21_f s"
  "A22_f (prim_res X s) = A22_f s"
  "A23_f (prim_res X s) = A23_f s"
  "A31_f (prim_res X s) = A31_f s"
  "A32_f (prim_res X s) = A32_f s"
  "A33_f (prim_res X s) = A33_f s"
  "B11_f (prim_res X s) = B11_f s"
  "B12_f (prim_res X s) = B12_f s"
  "B13_f (prim_res X s) = B13_f s"
  "B21_f (prim_res X s) = B21_f s"
  "B22_f (prim_res X s) = B22_f s"
  "B23_f (prim_res X s) = B23_f s"
  "B31_f (prim_res X s) = B31_f s"
  "B32_f (prim_res X s) = B32_f s"
  "B33_f (prim_res X s) = B33_f s"
  by (simp_all add: prim_res_def)

lemma prim_res_cell [simp]:
  "u (prim_res X s) a b c = (if (a, b, c) \<in> X then ru s a b c * (1 / rho s a b c) else u s a b c)"
  "v (prim_res X s) a b c = (if (a, b, c) \<in> X then rv s a b c * (1 / rho s a b c) else v s a b c)"
  "w (prim_res X s) a b c = (if (a, b, c) \<in> X then rw s a b c * (1 / rho s a b c) else w s a b c)"
  by (simp_all add: prim_res_def)

lemma product_res_frame [simp]:
  "rho (product_res X s) = rho s"
  "ru (product_res X s) = ru s"
  "rv (product_res X s) = rv s"
  "rw (product_res X s) = rw s"
  "mu_SGS (product_res X s) = mu_SGS s"
  "magStrain (product_res X s) = magStrain s"
  "u (product_res X s) = u s"
  "v (product_res X s) = v s"
  "w (product_res X s) = w s"
  "u_f (product_res X s) = u_f s"
  "v_f (product_res X s) = v_f s"
  "w_f (product_res X s) = w_f s"
  "uu_f (product_res X s) = uu_f s"
  "uv_f (product_res X s) = uv_f s"
  "uw_f (product_res X s) = uw_f s"
  "vu_f (product_res X s) = vu_f s"
  "vv_f (product_res X s) = vv_f s"
  "vw_f (product_res X s) = vw_f s"
  "wu_f (product_res X s) = wu_f s"
  "wv_f (product_res X s) = wv_f s"
  "ww_f (product_res X s) = ww_f s"
  "A11 (product_res X s) = A11 s"
  "A12 (product_res X s) = A12 s"
  "A13 (product_res X s) = A13 s"
  "A21 (product_res X s) = A21 s"
  "A22 (product_res X s) = A22 s"
  "A23 (product_res X s) = A23 s"
  "A31 (product_res X s) = A31 s"
  "A32 (product_res X s) = A32 s"
  "A33 (product_res X s) = A33 s"
  "A11_f (product_res X s) = A11_f s"
  "A12_f (product_res X s) = A12_f s"
  "A13_f (product_res X s) = A13_f s"
  "A21_f (product_res X s) = A21_f s"
  "A22_f (product_res X s) = A22_f s"
  "A23_f (product_res X s) = A23_f s"
  "A31_f (product_res X s) = A31_f s"
  "A32_f (product_res X s) = A32_f s"
  "A33_f (product_res X s) = A33_f s"
  "B11_f (product_res X s) = B11_f s"
  "B12_f (product_res X s) = B12_f s"
  "B13_f (product_res X s) = B13_f s"
  "B21_f (product_res X s) = B21_f s"
  "B22_f (product_res X s) = B22_f s"
  "B23_f (product_res X s) = B23_f s"
  "B31_f (product_res X s) = B31_f s"
  "B32_f (product_res X s) = B32_f s"
  "B33_f (product_res X s) = B33_f s"
  by (simp_all add: product_res_def)

lemma product_res_cell [simp]:
  "L11 (product_res X s) a b c = (if (a, b, c) \<in> X then u s a b c * u s a b c else L11 s a b c)"
  "L12 (product_res X s) a b c = (if (a, b, c) \<in> X then u s a b c * v s a b c else L12 s a b c)"
  "L13 (product_res X s) a b c = (if (a, b, c) \<in> X then u s a b c * w s a b c else L13 s a b c)"
  "L21 (product_res X s) a b c = (if (a, b, c) \<in> X then v s a b c * u s a b c else L21 s a b c)"
  "L22 (product_res X s) a b c = (if (a, b, c) \<in> X then v s a b c * v s a b c else L22 s a b c)"
  "L23 (product_res X s) a b c = (if (a, b, c) \<in> X then v s a b c * w s a b c else L23 s a b c)"
  "L31 (product_res X s) a b c = (if (a, b, c) \<in> X then w s a b c * u s a b c else L31 s a b c)"
  "L32 (product_res X s) a b c = (if (a, b, c) \<in> X then w s a b c * v s a b c else L32 s a b c)"
  "L33 (product_res X s) a b c = (if (a, b, c) \<in> X then w s a b c * w s a b c else L33 s a b c)"
  by (simp_all add: product_res_def)

lemma strain_res_frame [simp]:
  "rho (strain_res cfg X s) = rho s"
  "ru (strain_res cfg X s) = ru s"
  "rv (strain_res cfg X s) = rv s"
  "rw (strain_res cfg X s) = rw s"
  "mu_SGS (strain_res cfg X s) = mu_SGS s"
  "u (strain_res cfg X s) = u s"
  "v (strain_res cfg X s) = v s"
  "w (strain_res cfg X s) = w s"
  "u_f (strain_res cfg X s) = u_f s"
  "v_f (strain_res cfg X s) = v_f s"
  "w_f (strain_res cfg X s) = w_f s"
  "uu_f (strain_res cfg X s) = uu_f s"
  "uv_f (strain_res cfg X s) = uv_f s"
  "uw_f (strain_res cfg X s) = uw_f s"
  "vu_f (strain_res cfg X s) = vu_f s"
  "vv_f (strain_res cfg X s) = vv_f s"
  "vw_f (strain_res cfg X s) = vw_f s"
  "wu_f (strain_res cfg X s) = wu_f s"
  "wv_f (strain_res cfg X s) = wv_f s"
  "ww_f (strain_res cfg X s) = ww_f s"
  "A11_f (strain_res cfg X s) = A11_f s"
  "A12_f (strain_res cfg X s) = A12_f s"
  "A13_f (strain_res cfg X s) = A13_f s"
  "A21_f (strain_res cfg X s) = A21_f s"
  "A22_f (strain_res cfg X s) = A22_f s"
  "A23_f (strain_res cfg X s) = A23_f s"
  "A31_f (strain_res cfg X s) = A31_f s"
  "A32_f (strain_res cfg X s) = A32_f s"
  "A33_f (strain_res cfg X s) = A33_f s"
  by (simp_all add: strain_res_def)

lemma strain_res_cell [simp]:
  "magStrain (strain_res cfg X s) a b c = (if (a, b, c) \<in> X then magnitude (strain cfg (u s) (v s) (w s) a b c) else magStrain s a b c)"
  "L11 (strain_res cfg X s) a b c = (if (a, b, c) \<in> X then uu_f s a b c - u_f s a b c * u_f s a b c else L11 s a b c)"
  "L12 (strain_res cfg X s) a b c = (if (a, b, c) \<in> X then uv_f s a b c - u_f s a b c * v_f s a b c else L12 s a b c)"
  "L13 (strain_res cfg X s) a b c = (if (a, b, c) \<in> X then uw_f s a b c - u_f s a b c * w_f s a b c else L13 s a b c)"
  "L21 (strain_res cfg X s) a b c = (if (a, b, c) \<in> X then vu_f s a b c - v_f s a b c * u_f s a b c else L21 s a b c)"
  "L22 (strain_res cfg X s) a b c = (if (a, b, c) \<in> X then vv_f s a b c - v_f s a b c * v_f s a b c else L22 s a b c)"
  "L23 (strain_res cfg X s) a b c = (if (a, b, c) \<in> X then vw_f s a b c - v_f s a b c * w_f s a b c else L23 s a b c)"
  "L31 (strain_res cfg X s) a b c = (if (a, b, c) \<in> X then wu_f s a b c - w_f s a b c * u_f s a b c else L31 s a b c)"
  "L32 (strain_res cfg X s) a b c = (if (a, b, c) \<in> X then wv_f s a b c - w_f s a b c * v_f s a b c else L32 s a b c)"
  "L33 (strain_res cfg X s) a b c = (if (a, b, c) \<in> X then ww_f s a b c - w_f s a b c * w_f s a b c else L33 s a b c)"
  "A11 (strain_res cfg X s) a b c = (if (a, b, c) \<in> X then magnitude (strain cfg (u s) (v s) (w s) a b c) * c11 (strain cfg (u s) (v s) (w s) a b c) else A11 s a b c)"
  "A12 (strain_res cfg X s) a b c = (if (a, b, c) \<in> X then magnitude (strain cfg (u s) (v s) (w s) a b c) * c12 (strain cfg (u s) (v s) (w s) a b c) else A12 s a b c)"
  "A13 (strain_res cfg X s) a b c = (if (a, b, c) \<in> X then magnitude (strain cfg (u s) (v s) (w s) a b c) * c13 (strain cfg (u s) (v s) (w s) a b c) else A13 s a b c)"
  "A21 (strain_res cfg X s) a b c = (if (a, b, c) \<in> X then magnitude (strain cfg (u s) (v s) (w s) a b c) * c21 (strain cfg (u s) (v s) (w s) a b c) else A21 s a b c)"
  "A22 (strain_res cfg X s) a b c = (if (a, b, c) \<in> X then magnitude (strain cfg (u s) (v s) (w s) a b c) * c22 (strain cfg (u s) (v s) (w s) a b c) else A22 s a b c)"
  "A23 (strain_res cfg X s) a b c = (if (a, b, c) \<in> X then magnitude (strain cfg (u s) (v s) (w s) a b c) * c23 (strain cfg (u s) (v s) (w s) a b c) else A23 s a b c)"
  "A31 (strain_res cfg X s) a b c = (if (a, b, c) \<in> X then magnitude (strain cfg (u s) (v s) (w s) a b c) * c31 (strain cfg (u s) (v s) (w s) a b c) else A31 s a b c)"
  "A32 (strain_res cfg X s) a b c = (if (a, b, c) \<in> X then magnitude (strain cfg (u s) (v s) (w s) a b c) * c32 (strain cfg (u s) (v s) (w s) a b c) else A32 s a b c)"
  "A33 (strain_res cfg X s) a b c = (if (a, b, c) \<in> X then magnitude (strain cfg (u s) (v s) (w s) a b c) * c33 (strain cfg (u s) (v s) (w s) a b c) else A33 s a b c)"
  "B11_f (strain_res cfg X s) a b c = (if (a, b, c) \<in> X then magnitude (strain cfg (u_f s) (v_f s) (w_f s) a b c) * c11 (strain cfg (u_f s) (v_f s) (w_f s) a b c) else B11_f s a b c)"
  "B12_f (strain_res cfg X s) a b c = (if (a, b, c) \<in> X then magnitude (strain cfg (u_f s) (v_f s) (w_f s) a b c) * c12 (strain cfg (u_f s) (v_f s) (w_f s) a b c) else B12_f s a b c)"
  "B13_f (strain_res cfg X s) a b c = (if (a, b, c) \<in> X then magnitude (strain cfg (u_f s) (v_f s) (w_f s) a b c) * c13 (strain cfg (u_f s) (v_f s) (w_f s) a b c) else B13_f s a b c)"
  "B21_f (strain_res cfg X s) a b c = (if (a, b, c) \<in> X then magnitude (strain cfg (u_f s) (v_f s) (w_f s) a b c) * c21 (strain cfg (u_f s) (v_f s) (w_f s) a b c) else B21_f s a b c)"
  "B22_f (strain_res cfg X s) a b c = (if (a, b, c) \<in> X then magnitude (strain cfg (u_f s) (v_f s) (w_f s) a b c) * c22 (strain cfg (u_f s) (v_f s) (w_f s) a b c) else B22_f s a b c)"
  "B23_f (strain_res cfg X s) a b c = (if (a, b, c) \<in> X then magnitude (strain cfg (u_f s) (v_f s) (w_f s) a b c) * c23 (strain cfg (u_f s) (v_f s) (w_f s) a b c) else B23_f s a b c)"
  "B31_f (strain_res cfg X s) a b c = (if (a, b, c) \<in> X then magnitude (strain cfg (u_f s) (v_f s) (w_f s) a b c) * c31 (strain cfg (u_f s) (v_f s) (w_f s) a b c) else B31_f s a b c)"
  "B32_f (strain_res cfg X s) a b c = (if (a, b, c) \<in> X then magnitude (strain cfg (u_f s) (v_f s) (w_f s) a b c) * c32 (strain cfg (u_f s) (v_f s) (w_f s) a b c) else B32_f s a b c)"
  "B33_f (strain_res cfg X s) a b c = (if (a, b, c) \<in> X then magnitude (strain cfg (u_f s) (v_f s) (w_f s) a b c) * c33 (strain cfg (u_f s) (v_f s) (w_f s) a b c) else B33_f s a b c)"
  by (simp_all add: strain_res_def)

lemma coef_res_frame [simp]:
  "rho (coef_res cfg X s) = rho s"
  "ru (coef_res cfg X s) = ru s"
  "rv (coef_res cfg X s) = rv s"
  "rw (coef_res cfg X s) = rw s"
  "magStrain (coef_res cfg X s) = magStrain s"
  "u (coef_res cfg X s) = u s"
  "v (coef_res cfg X s) = v s"
  "w (coef_res cfg X s) = w s"
  "u_f (coef_res cfg X s) = u_f s"
  "v_f (coef_res cfg X s) = v_f s"
  "w_f (coef_res cfg X s) = w_f s"
  "uu_f (coef_res cfg X s) = uu_f s"
  "uv_f (coef_res cfg X s) = uv_f s"
  "uw_f (coef_res cfg X s) = uw_f s"
  "vu_f (coef_res cfg X s) = vu_f s"
  "vv_f (coef_res cfg X s) = vv_f s"
  "vw_f (coef_res cfg X s) = vw_f s"
  "wu_f (coef_res cfg X s) = wu_f s"
  "wv_f (coef_res cfg X s) = wv_f s"
  "ww_f (coef_res cfg X s) = ww_f s"
  "L12 (coef_res cfg X s) = L12 s"
  "L13 (coef_res cfg X s) = L13 s"
  "L21 (coef_res cfg X s) = L21 s"
  "L23 (coef_res cfg X s) = L23 s"
  "L31 (coef_res cfg X s) = L31 s"
  "L32 (coef_res cfg X s) = L32 s"
  "A11 (coef_res cfg X s) = A11 s"
  "A12 (coef_res cfg X s) = A12 s"
  "A13 (coef_res cfg X s) = A13 s"
  "A21 (coef_res cfg X s) = A21 s"
  "A22 (coef_res cfg X s) = A22 s"
  "A23 (coef_res cfg X s) = A23 s"
  "A31 (coef_res cfg X s) = A31 s"
  "A32 (coef_res cfg X s) = A32 s"
  "A33 (coef_res cfg X s) = A33 s"
  "A11_f (coef_res cfg X s) = A11_f s"
  "A12_f (coef_res cfg X s) = A12_f s"
  "A13_f (coef_res cfg X s) = A13_f s"
  "A21_f (coef_res cfg X s) = A21_f s"
  "A22_f (coef_res cfg X s) = A22_f s"
  "A23_f (coef_res cfg X s) = A23_f s"
  "A31_f (coef_res cfg X s) = A31_f s"
  "A32_f (coef_res cfg X s) = A32_f s"
  "A33_f (coef_res cfg X s) = A33_f s"
  "B11_f (coef_res cfg X s) = B11_f s"
  "B12_f (coef_res cfg X s) = B12_f s"
  "B13_f (coef_res cfg X s) = B13_f s"
  "B21_f (coef_res cfg X s) = B21_f s"
  "B22_f (coef_res cfg X s) = B22_f s"
  "B23_f (coef_res cfg X s) = B23_f s"
  "B31_f (coef_res cfg X s) = B31_f s"
  "B32_f (coef_res cfg X s) = B32_f s"
  "B33_f (coef_res cfg X s) = B33_f s"
  by (simp_all add: coef_res_def)

lemma coef_res_cell [simp]:
  "mu_SGS (coef_res cfg X s) a b c = (if (a, b, c) \<in> X then rho s a b c * Cd_of cfg s a b c * DD cfg * magStrain s a b c else mu_SGS s a b c)"
  "L11 (coef_res cfg X s) a b c = (if (a, b, c) \<in> X then L11 s a b c + dev_trace s a b c else L11 s a b c)"
  "L22 (coef_res cfg X s) a b c = (if (a, b, c) \<in> X then L22 s a b c + dev_trace s a b c else L22 s a b c)"
  "L33 (coef_res cfg X s) a b c = (if (a, b, c) \<in> X then L33 s a b c + dev_trace s a b c else L33 s a b c)"
  by (simp_all add: coef_res_def)

lemma filter_velocities_frame [simp]:
  "rho (filter_velocities cfg mem s) = rho s"
  "ru (filter_velocities cfg mem s) = ru s"
  "rv (filter_velocities cfg mem s) = rv s"
  "rw (filter_velocities cfg mem s) = rw s"
  "mu_SGS (filter_velocities cfg mem s) = mu_SGS s"
  "magStrain (filter_velocities cfg mem s) = magStrain s"
  "u (filter_velocities cfg mem s) = u s"
  "v (filter_velocities cfg mem s) = v s"
  "w (filter_velocities cfg mem s) = w s"
  "L11 (filter_velocities cfg mem s) = L11 s"
  "L12 (filter_velocities cfg mem s) = L12 s"
  "L13 (filter_velocities cfg mem s) = L13 s"
  "L21 (filter_velocities cfg mem s) = L21 s"
  "L22 (filter_velocities cfg mem s) = L22 s"
  "L23 (filter_velocities cfg mem s) = L23 s"
  "L31 (filter_velocities cfg mem s) = L31 s"
  "L32 (filter_velocities cfg mem s) = L32 s"
  "L33 (filter_velocities cfg mem s) = L33 s"
  "A11 (filter_velocities cfg mem s) = A11 s"
  "A12 (filter_velocities cfg mem s) = A12 s"
  "A13 (filter_velocities cfg mem s) = A13 s"
  "A21 (filter_velocities cfg mem s) = A21 s"
  "A22 (filter_velocities cfg mem s) = A22 s"
  "A23 (filter_velocities cfg mem s) = A23 s"
  "A31 (filter_velocities cfg mem s) = A31 s"
  "A32 (filter_velocities cfg mem s) = A32 s"
  "A33 (filter_velocities cfg mem s) = A33 s"
  "A11_f (filter_velocities cfg mem s) = A11_f s"
  "A12_f (filter_velocities cfg mem s) = A12_f s"
  "A13_f (filter_velocities cfg mem s) = A13_f s"
  "A21_f (filter_velocities cfg mem s) = A21_f s"
  "A22_f (filter_velocities cfg mem s) = A22_f s"
  "A23_f (filter_velocities cfg mem s) = A23_f s"
  "A31_f (filter_velocities cfg mem s) = A31_f s"
  "A32_f (filter_velocities cfg mem s) = A32_f s"
  "A33_f (filter_velocities cfg mem s) = A33_f s"
  "B11_f (filter_velocities cfg mem s) = B11_f s"
  "B12_f (filter_velocities cfg mem s) = B12_f s"
  "B13_f (filter_velocities cfg mem s) = B13_f s"
  "B21_f (filter_velocities cfg mem s) = B21_f s"
  "B22_f (filter_velocities cfg mem s) = B22_f s"
  "B23_f (filter_velocities cfg mem s) = B23_f s"
  "B31_f (filter_velocities cfg mem s) = B31_f s"
  "B32_f (filter_velocities cfg mem s) = B32_f s"
  "B33_f (filter_velocities cfg mem s) = B33_f s"
  by (simp_all add: filter_velocities_def)

lemma filter_velocities_new [simp]:
  "u_f (filter_velocities cfg mem s) = filter_f cfg (mem 0) (mem 1) (u s) FilterKer"
  "v_f (filter_velocities cfg mem s) = filter_f cfg (mem 2) (mem 3) (v s) FilterKer"
  "w_f (filter_velocities cfg mem s) = filter_f cfg (mem 4) (mem 5) (w s) FilterKer"
  "uu_f (filter_velocities cfg mem s) = filter_f cfg (mem 6) (mem 7) (L11 s) FilterKer"
  "uv_f (filter_velocities cfg mem s) = filter_f cfg (mem 8) (mem 9) (L12 s) FilterKer"
  "uw_f (filter_velocities cfg mem s) = filter_f cfg (mem 10) (mem 11) (L13 s) FilterKer"
  "vu_f (filter_velocities cfg mem s) = filter_f cfg (mem 12) (mem 13) (L21 s) FilterKer"
  "vv_f (filter_velocities cfg mem s) = filter_f cfg (mem 14) (mem 15) (L22 s) FilterKer"
  "vw_f (filter_velocities cfg mem s) = filter_f cfg (mem 16) (mem 17) (L23 s) FilterKer"
  "wu_f (filter_velocities cfg mem s) = filter_f cfg (mem 18) (mem 19) (L31 s) FilterKer"
  "wv_f (filter_velocities cfg mem s) = filter_f cfg (mem 20) (mem 21) (L32 s) FilterKer"
  "ww_f (filter_velocities cfg mem s) = filter_f cfg (mem 22) (mem 23) (L33 s) FilterKer"
  by (simp_all add: filter_velocities_def)

lemma filter_A_frame [simp]:
  "rho (filter_A cfg mem s) = rho s"
  "ru (filter_A cfg mem s) = ru s"
  "rv (filter_A cfg mem s) = rv s"
  "rw (filter_A cfg mem s) = rw s"
  "mu_SGS (filter_A cfg mem s) = mu_SGS s"
  "magStrain (filter_A cfg mem s) = magStrain s"
  "u (filter_A cfg mem s) = u s"
  "v (filter_A cfg mem s) = v s"
  "w (filter_A cfg mem s) = w s"
  "u_f (filter_A cfg mem s) = u_f s"
  "v_f (filter_A cfg mem s) = v_f s"
  "w_f (filter_A cfg mem s) = w_f s"
  "uu_f (filter_A cfg mem s) = uu_f s"
  "uv_f (filter_A cfg mem s) = uv_f s"
  "uw_f (filter_A cfg mem s) = uw_f s"
  "vu_f (filter_A cfg mem s) = vu_f s"
  "vv_f (filter_A cfg mem s) = vv_f s"
  "vw_f (filter_A cfg mem s) = vw_f s"
  "wu_f (filter_A cfg mem s) = wu_f s"
  "wv_f (filter_A cfg mem s) = wv_f s"
  "ww_f (filter_A cfg mem s) = ww_f s"
  "L11 (filter_A cfg mem s) = L11 s"
  "L12 (filter_A cfg mem s) = L12 s"
  "L13 (filter_A cfg mem s) = L13 s"
  "L21 (filter_A cfg mem s) = L21 s"
  "L22 (filter_A cfg mem s) = L22 s"
  "L23 (filter_A cfg mem s) = L23 s"
  "L31 (filter_A cfg mem s) = L31 s"
  "L32 (filter_A cfg mem s) = L32 s"
  "L33 (filter_A cfg mem s) = L33 s"
  "A11 (filter_A cfg mem s) = A11 s"
  "A12 (filter_A cfg mem s) = A12 s"
  "A13 (filter_A cfg mem s) = A13 s"
  "A21 (filter_A cfg mem s) = A21 s"
  "A22 (filter_A cfg mem s) = A22 s"
  "A23 (filter_A cfg mem s) = A23 s"
  "A31 (filter_A cfg mem s) = A31 s"
  "A32 (filter_A cfg mem s) = A32 s"
  "A33 (filter_A cfg mem s) = A33 s"
  "B11_f (filter_A cfg mem s) = B11_f s"
  "B12_f (filter_A cfg mem s) = B12_f s"
  "B13_f (filter_A cfg mem s) = B13_f s"
  "B21_f (filter_A cfg mem s) = B21_f s"
  "B22_f (filter_A cfg mem s) = B22_f s"
  "B23_f (filter_A cfg mem s) = B23_f s"
  "B31_f (filter_A cfg mem s) = B31_f s"
  "B32_f (filter_A cfg mem s) = B32_f s"
  "B33_f (filter_A cfg mem s) = B33_f s"
  by (simp_all add: filter_A_def)

lemma filter_A_new [simp]:
  "A11_f (filter_A cfg mem s) = filter_f cfg (mem 24) (mem 25) (A11 s) FilterKer"
  "A12_f (filter_A cfg mem s) = filter_f cfg (mem 26) (mem 27) (A12 s) FilterKer"
  "A13_f (filter_A cfg mem s) = filter_f cfg (mem 28) (mem 29) (A13 s) FilterKer"
  "A21_f (filter_A cfg mem s) = filter_f cfg (mem 30) (mem 31) (A21 s) FilterKer"
  "A22_f (filter_A cfg mem s) = filter_f cfg (mem 32) (mem 33) (A22 s) FilterKer"
  "A23_f (filter_A cfg mem s) = filter_f cfg (mem 34) (mem 35) (A23 s) FilterKer"
  "A31_f (filter_A cfg mem s) = filter_f cfg (mem 36) (mem 37) (A31 s) FilterKer"
  "A32_f (filter_A cfg mem s) = filter_f cfg (mem 38) (mem 39) (A32 s) FilterKer"
  "A33_f (filter_A cfg mem s) = filter_f cfg (mem 40) (mem 41) (A33 s) FilterKer"
  by (simp_all add: filter_A_def)

lemma coef_step_eq:
  "coef_step cfg i j k t =
     t\<lparr>L11 := put (L11 t) i j k (L11 t i j k + dev_trace t i j k),
       L22 := put (L22 t) i j k (L22 t i j k + dev_trace t i j k),
       L33 := put (L33 t) i j k (L33 t i j k + dev_trace t i j k),
       mu_SGS := put (mu_SGS t) i j k (rho t i j k * Cd_of cfg t i j k * DD cfg * magStrain t i j k)\<rparr>"
  by (simp add: coef_step_def Let_def Cd_of_def Ldev_def Lten_def Mten_def dev_trace_def put_apply)

lemma Mten_coef_res [simp]: "Mten cfg (coef_res cfg' X s) = Mten cfg s"
  by (simp add: Mten_def fun_eq_iff)

lemma dev_trace_coef_res: "(i, j, k) \<notin> X \<Longrightarrow> dev_trace (coef_res cfg X s) i j k = dev_trace s i j k"
  by (simp add: dev_trace_def)

lemma Ldev_coef_res: "(i, j, k) \<notin> X \<Longrightarrow> Ldev (coef_res cfg X s) i j k = Ldev s i j k"
  by (simp add: Ldev_def Lten_def dev_trace_coef_res)

lemma Cd_of_coef_res: "(i, j, k) \<notin> X \<Longrightarrow> Cd_of cfg (coef_res cfg X s) i j k = Cd_of cfg s i j k"
  by (simp add: Cd_of_def Ldev_coef_res)

lemma coef_res_step:
  assumes "(i, j, k) \<notin> X"
  shows "coef_step cfg i j k (coef_res cfg X s) = coef_res cfg (insert (i, j, k) X) s"
proof -
  have "coef_step cfg i j k (coef_res cfg X s) =
     s\<lparr>L11 := put (L11 (coef_res cfg X s)) i j k (L11 s i j k + dev_trace s i j k),
       L22 := put (L22 (coef_res cfg X s)) i j k (L22 s i j k + dev_trace s i j k),
       L33 := put (L33 (coef_res cfg X s)) i j k (L33 s i j k + dev_trace s i j k),
       mu_SGS := put (mu_SGS (coef_res cfg X s)) i j k
          (rho s i j k * Cd_of cfg s i j k * DD cfg * magStrain s i j k)\<rparr>"
    unfolding coef_step_eq using assms
    by (simp add: dev_trace_coef_res Cd_of_coef_res)
  also have "\<dots> = coef_res cfg (insert (i, j, k) X) s"
    by (simp add: coef_res_def [of _ "insert _ _"]) (auto simp add: fun_eq_iff put_apply)
  finally show ?thesis .
qed

lemma coef_loop_eq:
  "coef_loop cfg s =
     (if \<forall>(i, j, k) \<in> interior cfg.
           contract (Mten cfg s i j k) (Mten cfg s i j k) + small cfg \<noteq> 0
      then Some (coef_res cfg (interior cfg) s) else None)"
proof -
  have step: "for_loop 1 (LENN cfg) (\<lambda>i. for_loop 1 (HIGG cfg) (\<lambda>j.
                for_loop 1 (DEPP cfg) (\<lambda>k. coef_step cfg i j k))) s = coef_res cfg (interior cfg) s"
    unfolding interior_def
    apply (rule for_loop3_cells [where G = "\<lambda>X. coef_res cfg X s"])
     apply (simp add: coef_res_def)
    apply (rule coef_res_step)
    apply assumption
    done
  have "coef_loop cfg s =
     (if \<forall>(i, j, k) \<in> interior cfg.
           contract (Mten cfg s i j k) (Mten cfg s i j k) + small cfg \<noteq> 0
      then Some (for_loop 1 (LENN cfg) (\<lambda>i. for_loop 1 (HIGG cfg) (\<lambda>j.
                for_loop 1 (DEPP cfg) (\<lambda>k. coef_step cfg i j k))) s) else None)"
    unfolding coef_loop_def interior_def
    by (rule for_loop_opt3) (simp_all add: coef_body_def coef_step_eq Mten_def)
  then show ?thesis by (simp only: step)
qed

section \<open>The result of the procedure\<close>

lemma before_coef_eq:
  "before_coef cfg mem s =
     filter_A cfg mem (strain_res cfg (interior cfg)
       (filter_velocities cfg mem (product_res (padded cfg) s)))"
  by (simp add: before_coef_def product_loop_eq strain_loop_eq)

lemma contract_self_nonneg: "0 \<le> contract X X"
  by (simp add: contract_def)

lemma magnitude_nonneg: "0 \<le> magnitude X"
  by (simp add: magnitude_def contract_self_nonneg)

lemma clip_range: "0 \<le> clip x" "clip x \<le> 0.15"
  by (simp_all add: clip_def)

lemma clip_eq_max_min: "clip x = max 0 (min 0.15 x)"
  by (simp add: clip_def max_def min_def)

lemma DynamicSmagorinsky_eq:
  "DynamicSmagorinsky cfg mem s =
     (if (\<forall>(i, j, k) \<in> padded cfg. rho s i j k \<noteq> 0) \<and>
         (\<forall>(i, j, k) \<in> interior cfg.
            contract (Mten cfg (before_coef cfg mem (prim_res (padded cfg) s)) i j k)
                     (Mten cfg (before_coef cfg mem (prim_res (padded cfg) s)) i j k)
            + small cfg \<noteq> 0)
      then Some (final_state cfg mem s) else None)"
proof -
  let ?s5 = "before_coef cfg mem (prim_res (padded cfg) s)"
  define P where "P \<longleftrightarrow> (\<forall>(i, j, k) \<in> padded cfg. rho s i j k \<noteq> 0)"
  define Q where "Q \<longleftrightarrow> (\<forall>(i, j, k) \<in> interior cfg.
     contract (Mten cfg ?s5 i j k) (Mten cfg ?s5 i j k) + small cfg \<noteq> 0)"
  have 1: "primitive_loop cfg s = (if P then Some (prim_res (padded cfg) s) else None)"
    unfolding P_def by (rule primitive_loop_eq)
  have 2: "coef_loop cfg ?s5 = (if Q then Some (final_state cfg mem s) else None)"
    unfolding Q_def final_state_def by (rule coef_loop_eq)
  have "DynamicSmagorinsky cfg mem s = (if P \<and> Q then Some (final_state cfg mem s) else None)"
    unfolding DynamicSmagorinsky_def 1 by (simp add: 2)
  then show ?thesis unfolding P_def Q_def .
qed

lemma DynamicSmagorinsky_Some:
  assumes "0 < small cfg" "\<forall>(i, j, k) \<in> padded cfg. rho s i j k \<noteq> 0"
  shows "DynamicSmagorinsky cfg mem s = Some (final_state cfg mem s)"
proof -
  have "contract X X + small cfg \<noteq> 0" for X
    using contract_self_nonneg [of X] assms(1) by linarith
  then show ?thesis using assms(2) by (simp add: DynamicSmagorinsky_eq)
qed

lemma DynamicSmagorinsky_SomeD:
  assumes "DynamicSmagorinsky cfg mem s = Some s'"
  shows "s' = final_state cfg mem s" "\<forall>(i, j, k) \<in> padded cfg. rho s i j k \<noteq> 0"
  using assms by (simp_all add: DynamicSmagorinsky_eq split: if_splits)


lemma final_inputs [simp]:
  "rho (final_state cfg mem s) = rho s"
  "ru (final_state cfg mem s) = ru s"
  "rv (final_state cfg mem s) = rv s"
  "rw (final_state cfg mem s) = rw s"
  by (simp_all add: final_state_def before_coef_eq)

lemma final_velocities:
  "u (final_state cfg mem s) = u (prim_res (padded cfg) s)"
  "v (final_state cfg mem s) = v (prim_res (padded cfg) s)"
  "w (final_state cfg mem s) = w (prim_res (padded cfg) s)"
  by (simp_all add: final_state_def before_coef_eq)

lemma final_magStrain:
  assumes "(i, j, k) \<in> interior cfg"
  shows "magStrain (final_state cfg mem s) i j k =
         magnitude (strain cfg (u (final_state cfg mem s)) (v (final_state cfg mem s))
                      (w (final_state cfg mem s)) i j k)"
  using assms by (simp add: final_velocities) (simp add: final_state_def before_coef_eq)

lemma final_Mten:
  "Mten cfg (final_state cfg mem s) = Mten cfg (before_coef cfg mem (prim_res (padded cfg) s))"
  by (simp add: final_state_def)

lemma final_Lten:
  assumes "(i, j, k) \<in> interior cfg"
  shows "Lten (final_state cfg mem s) i j k = Ldev (before_coef cfg mem (prim_res (padded cfg) s)) i j k"
  using assms by (simp add: final_state_def Lten_def Ldev_def)

lemma final_mu_SGS:
  "mu_SGS (final_state cfg mem s) i j k =
     (if (i, j, k) \<in> interior cfg
      then rho s i j k * Cd_of cfg (before_coef cfg mem (prim_res (padded cfg) s)) i j k * DD cfg
           * magStrain (final_state cfg mem s) i j k
      else mu_SGS s i j k)"
  by (simp add: final_state_def) (simp add: before_coef_eq)

lemma final_Leonard:
  assumes "(i, j, k) \<in> interior cfg"
  shows "Lten (final_state cfg mem s) i j k = deviator (Leonard (final_state cfg mem s) i j k)"
  using assms
  by (simp add: final_state_def Lten_def Leonard_def deviator_def dev_trace_def before_coef_eq Let_def)

lemma strain_cong:
  assumes "\<And>a b c. (a, b, c) \<in> stencil_cells i j k \<Longrightarrow> fu a b c = gu a b c \<and> fv a b c = gv a b c \<and> fw a b c = gw a b c"
  shows "strain cfg fu fv fw i j k = strain cfg gu gv gw i j k"
  using assms by (simp add: strain_def stencil_cells_def)

lemma interior_neighbours:
  assumes "(i, j, k) \<in> interior cfg"
  shows "stencil_cells i j k
         \<subseteq> padded cfg"
  using assms by (auto simp: interior_def padded_def stencil_cells_def)

lemma final_strain:
  assumes "(i, j, k) \<in> interior cfg"
  shows "strain cfg (u (final_state cfg mem s)) (v (final_state cfg mem s)) (w (final_state cfg mem s)) i j k
         = strain cfg (\<lambda>a b c. ru s a b c * (1 / rho s a b c)) (\<lambda>a b c. rv s a b c * (1 / rho s a b c))
             (\<lambda>a b c. rw s a b c * (1 / rho s a b c)) i j k"
proof (rule strain_cong)
  fix a b c
  assume "(a, b, c) \<in> stencil_cells i j k"
  then have "(a, b, c) \<in> padded cfg"
    using interior_neighbours [OF assms] by blast
  then show "u (final_state cfg mem s) a b c = ru s a b c * (1 / rho s a b c) \<and>
             v (final_state cfg mem s) a b c = rv s a b c * (1 / rho s a b c) \<and>
             w (final_state cfg mem s) a b c = rw s a b c * (1 / rho s a b c)"
    by (simp add: final_velocities)
qed

lemma trace_cancel:
  "(x + - (1.0 / 3.0) * (x + y + z)) + (y + - (1.0 / 3.0) * (x + y + z))
   + (z + - (1.0 / 3.0) * (x + y + z)) = (0::real)"
  by (simp add: field_simps)


section \<open>Symmetry away from the unassigned cells\<close>

text \<open>
  Where every stencil value of the filter was assigned before it was read, the Leonard
  tensor is symmetric; where moreover the neighbouring cells are interior cells, so is \<open>M\<close>.
\<close>

lemma Leonard_symmetric_where_defined:
  assumes "DynamicSmagorinsky cfg mem s = Some s'"
  assumes d: "sources_defined cfg i j k"
  shows "L12 s' i j k = L21 s' i j k \<and> L13 s' i j k = L31 s' i j k \<and> L23 s' i j k = L32 s' i j k"
proof -
  have s': "s' = final_state cfg mem s"
    using assms(1) by (rule DynamicSmagorinsky_SomeD)
  have c: "(i, j, k) \<in> interior cfg"
    using d by (simp add: sources_defined_iff interior_def LENN_def HIGG_def DEPP_def)
  let ?s1 = "prim_res (padded cfg) s"
  let ?s2 = "product_res (padded cfg) ?s1"
  have p: "(x, y, z) \<in> padded cfg"
    if "i - 1 \<le> x" "x \<le> i + 1" "j - 1 \<le> y" "y \<le> j + 1" "k - 1 \<le> z" "z \<le> k + 1" for x y z
    using that d by (simp add: sources_defined_iff padded_def LENN_def HIGG_def DEPP_def)
  have f: "filter_f cfg a b (L12 ?s2) h i j k = filter_f cfg a' b' (L21 ?s2) h i j k"
          "filter_f cfg a b (L13 ?s2) h i j k = filter_f cfg a' b' (L31 ?s2) h i j k"
          "filter_f cfg a b (L23 ?s2) h i j k = filter_f cfg a' b' (L32 ?s2) h i j k"
    for a b a' b' h
    by (rule filter_f_local [OF d], simp add: p mult.commute)+
  show ?thesis
    unfolding s' final_state_def before_coef_eq using c
    by (simp add: f(1) [where a' = "mem 12" and b' = "mem 13"]
        f(2) [where a' = "mem 18" and b' = "mem 19"]
        f(3) [where a' = "mem 20" and b' = "mem 21"] mult.commute)
qed


lemma strain_symmetric:
  "c12 (strain cfg fu fv fw i j k) = c21 (strain cfg fu fv fw i j k)"
  "c13 (strain cfg fu fv fw i j k) = c31 (strain cfg fu fv fw i j k)"
  "c23 (strain cfg fu fv fw i j k) = c32 (strain cfg fu fv fw i j k)"
  by (simp_all add: strain_def Let_def algebra_simps)

lemma model_tensor_symmetric_deep_interior:
  assumes "DynamicSmagorinsky cfg mem s = Some s'"
  assumes d: "sources_defined cfg i j k" and deep: "2 \<le> i" "2 \<le> j" "j < HIG cfg" "2 \<le> k"
  shows "c12 (Mten cfg s' i j k) = c21 (Mten cfg s' i j k) \<and>
         c13 (Mten cfg s' i j k) = c31 (Mten cfg s' i j k) \<and>
         c23 (Mten cfg s' i j k) = c32 (Mten cfg s' i j k)"
proof -
  have s': "s' = final_state cfg mem s"
    using assms(1) by (rule DynamicSmagorinsky_SomeD)
  have c: "(i, j, k) \<in> interior cfg"
    using d by (simp add: sources_defined_iff interior_def LENN_def HIGG_def DEPP_def)
  let ?s3 = "filter_velocities cfg mem (product_res (padded cfg) (prim_res (padded cfg) s))"
  let ?s4 = "strain_res cfg (interior cfg) ?s3"
  have p: "(x, y, z) \<in> interior cfg"
    if "i - 1 \<le> x" "x \<le> i + 1" "j - 1 \<le> y" "y \<le> j + 1" "k - 1 \<le> z" "z \<le> k + 1" for x y z
    using that d deep unfolding sources_defined_iff interior_def LENN_def HIGG_def DEPP_def by auto
  have f: "filter_f cfg a b (A12 ?s4) h i j k = filter_f cfg a' b' (A21 ?s4) h i j k"
          "filter_f cfg a b (A13 ?s4) h i j k = filter_f cfg a' b' (A31 ?s4) h i j k"
          "filter_f cfg a b (A23 ?s4) h i j k = filter_f cfg a' b' (A32 ?s4) h i j k"
    for a b a' b' h
    by (rule filter_f_local [OF d], simp add: p strain_symmetric)+
  show ?thesis
    unfolding s' final_Mten before_coef_eq Mten_def using c
    by (simp add: strain_symmetric f(1) [where a' = "mem 30" and b' = "mem 31"]
        f(2) [where a' = "mem 36" and b' = "mem 37"]
        f(3) [where a' = "mem 38" and b' = "mem 39"])
qed

section \<open>Facts about the concrete inputs and about the strain\<close>

lemma final_state_cfg1_shear:
  "DynamicSmagorinsky cfg1 mem shear = Some (final_state cfg1 mem shear)"
  by (rule DynamicSmagorinsky_Some) (simp_all add: cfg1_def shear_def at_rest_def filled_def)

lemma interior_cfg1: "(1, 1, 1) \<in> interior cfg1"
  by (simp add: interior_def cfg1_def LENN_def HIGG_def DEPP_def)

lemma strain_constant:
  assumes "\<And>a b c. (a, b, c) \<in> stencil_cells i j k \<Longrightarrow> fu a b c = cu \<and> fv a b c = cv \<and> fw a b c = cw"
  shows "strain cfg fu fv fw i j k = zero_tensor"
  using assms by (simp add: strain_def zero_tensor_def stencil_cells_def)

lemma magnitude_zero: "magnitude zero_tensor = 0"
  by (simp add: magnitude_def contract_def zero_tensor_def)

lemma filter_f_cfg1:
  "filter_f cfg1 a b U0 FilterKer 1 1 1 =
     ((U0 0 0 0 + U0 0 1 0 + U0 0 2 0) / 3 + (U0 0 0 1 + U0 0 1 1 + U0 0 2 1) / 3 + b 0 1 2) / 9
   + ((U0 1 0 0 + U0 1 1 0 + U0 1 2 0) / 3 + (U0 1 0 1 + U0 1 1 1 + U0 1 2 1) / 3 + b 1 1 2) / 9
   + a 2 1 1 / 3"
  by (simp add: filter_f_eq after2_def after1_def pass1_cells_def pass2_cells_def
      pass3_cells_def LENN_def HIGG_def DEPP_def cfg1_def tap3_def FilterKer_def)
     (simp add: field_simps numeral_2_eq_2)

lemma filter_f_zero: "filter_f cfg (filled 0) (filled 0) (\<lambda>a b c. 0) h = (\<lambda>a b c. 0)"
  by (simp add: fun_eq_iff filter_f_eq after2_def after1_def tap3_def filled_def)

lemma at_rest_velocities:
  "u (prim_res X (at_rest (filled 1))) = (\<lambda>a b c. 0)"
  "v (prim_res X (at_rest (filled 1))) = (\<lambda>a b c. 0)"
  "w (prim_res X (at_rest (filled 1))) = (\<lambda>a b c. 0)"
  by (simp_all add: fun_eq_iff) (simp_all add: at_rest_def filled_def)

lemma filled_apply: "filled x a b c = x"
  by (simp add: filled_def)

lemma strain_zero_fields:
  "strain cfg (\<lambda>a b c. 0) (\<lambda>a b c. 0) (\<lambda>a b c. 0) i j k = zero_tensor"
  by (simp add: strain_def zero_tensor_def)

lemma zero_tensor_sel [simp]: "c12 zero_tensor = 0" "c21 zero_tensor = 0"
  by (simp_all add: zero_tensor_def)


section \<open>Properties of the filter\<close>

text \<open>
  Claim C8. With the kernel \<open>(0, 1, 0)\<close> the three passes return the argument unchanged at
  every cell inside the ghost layer of the result, whatever the fresh buffers held.
\<close>

theorem filter_identity_kernel:
  assumes "h 0 = 0" "h 1 = 1" "h 2 = 0"
  assumes "(i, j, k) \<in> interior cfg"
  shows "filter_f cfg a b U0 h i j k = U0 i j k"
  using assms(4)
  by (simp add: filter_f_eq after2_def after1_def tap3_identity [OF assms(1-3)]
      interior_def pass1_cells_def pass2_cells_def pass3_cells_def)

text \<open>On the grid with one interior cell, the ramp \<open>a + 2b + 4c\<close> keeps its value \<open>7\<close> at \<open>(1,1,1)\<close>.\<close>

theorem filter_identity_kernel_witness:
  "IdKer 0 = 0 \<and> IdKer 1 = 1 \<and> IdKer 2 = 0 \<and> (1, 1, 1) \<in> interior cfg1 \<and>
   filter_f cfg1 (filled 5) (filled 9) ramp IdKer 1 1 1 = 7"
proof -
  have k: "IdKer 0 = 0" "IdKer 1 = 1" "IdKer 2 = 0"
    by (simp_all add: IdKer_def)
  have c: "(1, 1, 1) \<in> interior cfg1"
    by (simp add: interior_def cfg1_def LENN_def HIGG_def DEPP_def)
  have "filter_f cfg1 (filled 5) (filled 9) ramp IdKer 1 1 1 = ramp 1 1 1"
    using k c by (rule filter_identity_kernel)
  then show ?thesis using k c by (simp add: ramp_def)
qed

text \<open>
  Claim C5. For a kernel whose three weights sum to one and an argument that is constant
  over the padded grid, the result has that constant at every cell all of whose stencil
  values were assigned before they were read.
\<close>

theorem filter_constant:
  assumes "h 0 + h 1 + h 2 = 1"
  assumes "\<forall>(x, y, z) \<in> padded cfg. U0 x y z = c"
  assumes "sources_defined cfg i j k"
  shows "filter_f cfg a b U0 h i j k = c"
proof -
  have r: "1 \<le> i" "i < LEN cfg" "1 \<le> j" "j \<le> HIG cfg" "1 \<le> k" "k < DEP cfg"
    using assms(3) by (simp_all add: sources_defined_iff)
  have U: "U0 x y z = c" if "x \<le> LEN cfg + 1" "y \<le> HIG cfg + 1" "z \<le> DEP cfg + 1" for x y z
    using assms(2) that by (auto simp: padded_def LENN_def HIGG_def DEPP_def)
  have a1: "after1 cfg b U0 h x y z = c"
    if "x \<le> LEN cfg" "1 \<le> y" "y \<le> HIG cfg" "z \<le> DEP cfg" for x y z
    using that by (simp add: after1_def pass1_cells_def LENN_def HIGG_def DEPP_def U
        tap3_const [OF assms(1)])
  have a2: "after2 cfg a b U0 h x j z = c"
    if "x \<le> LEN cfg" "1 \<le> z" "z < DEP cfg" for x z
    using that r by (simp add: after2_def pass2_cells_def LENN_def HIGG_def DEPP_def a1
        tap3_const [OF assms(1)])
  show ?thesis
    using r by (simp add: filter_f_eq pass3_cells_def LENN_def HIGG_def DEPP_def a2
        tap3_const [OF assms(1)])
qed

text \<open>The box kernel on the grid with two interior cells per axis, at the cell \<open>(1,1,1)\<close>.\<close>

theorem filter_constant_witness:
  "FilterKer 0 + FilterKer 1 + FilterKer 2 = 1 \<and> sources_defined cfg2 1 1 1 \<and>
   filter_f cfg2 (filled 5) (filled 9) (filled 4) FilterKer 1 1 1 = 4"
proof -
  have k: "FilterKer 0 + FilterKer 1 + FilterKer 2 = 1"
    by (simp add: FilterKer_def)
  have u: "\<forall>(x, y, z) \<in> padded cfg2. filled 4 x y z = 4"
    by (simp add: filled_def)
  have d: "sources_defined cfg2 1 1 1"
    by (simp add: sources_defined_iff cfg2_def)
  show ?thesis using k d filter_constant [OF k u d] by simp
qed

text \<open>
  Claim C2. The claim fails on the program: on the grid with one interior cell per axis the
  result at the interior cell \<open>(1,1,1)\<close> is \<open>0\<close> when the fresh buffer \<open>U_\<close> holds zeros and \<open>1\<close>
  when it holds threes, for the same argument and kernel. The third pass reads
  \<open>U_[LEN+1][j][k]\<close>, which the second pass (\<open>i < LENN\<close>) never assigns.
\<close>

theorem filter_reads_unassigned_cell:
  "(1, 1, 1) \<in> interior cfg1 \<and>
   filter_f cfg1 (filled 0) (filled 0) (filled 0) FilterKer 1 1 1 = 0 \<and>
   filter_f cfg1 (filled 3) (filled 0) (filled 0) FilterKer 1 1 1 = 1"
  by (simp add: interior_def filter_f_eq after2_def after1_def pass1_cells_def pass2_cells_def
      pass3_cells_def LENN_def HIGG_def DEPP_def cfg1_def tap3_def FilterKer_def filled_def)


section \<open>Properties of the procedure\<close>

text \<open>
  Claim C1. When the procedure returns, every cell inside the ghost layer holds
  \<open>mu_SGS = rho * Cd * DD * |S|\<close>, where \<open>Cd\<close> is \<open>-0.5 * (L:M) / (M:M + small)\<close> clamped to
  \<open>[0, 0.15]\<close>, \<open>L\<close> is the Leonard tensor with a third of its trace removed from the diagonal,
  \<open>M\<close> is \<open>DD * (4 * B - A_f)\<close>, both contractions have nine terms, and \<open>|S|\<close> is the strain
  magnitude of the unfiltered velocities \<open>ru/rho\<close>, \<open>rv/rho\<close>, \<open>rw/rho\<close> at that cell.
\<close>

theorem coefficient_and_viscosity:
  assumes "DynamicSmagorinsky cfg mem s = Some s'"
  assumes "(i, j, k) \<in> interior cfg"
  shows "mu_SGS s' i j k =
           rho s i j k
           * max 0 (min 0.15 (- 0.5 * (contract (Lten s' i j k) (Mten cfg s' i j k)
                 / (contract (Mten cfg s' i j k) (Mten cfg s' i j k) + small cfg))))
           * DD cfg
           * magnitude (strain cfg (\<lambda>a b c. ru s a b c * (1 / rho s a b c))
                          (\<lambda>a b c. rv s a b c * (1 / rho s a b c))
                          (\<lambda>a b c. rw s a b c * (1 / rho s a b c)) i j k)
         \<and> Lten s' i j k = deviator (Leonard s' i j k)"
proof -
  have s': "s' = final_state cfg mem s"
    using assms(1) by (rule DynamicSmagorinsky_SomeD)
  show ?thesis
    unfolding s' using assms(2)
    by (simp add: final_mu_SGS final_magStrain final_strain final_Leonard [symmetric]
        final_Lten final_Mten Cd_of_def clip_eq_max_min)
qed


text \<open>The shear flow \<open>u = y\<close> of density one, where \<open>|S| = 1\<close> at the interior cell.\<close>

theorem coefficient_and_viscosity_witness:
  "\<exists>s'. DynamicSmagorinsky cfg1 (\<lambda>n. filled 0) shear = Some s' \<and> (1, 1, 1) \<in> interior cfg1 \<and>
     mu_SGS s' 1 1 1 =
       max 0 (min 0.15 (- 0.5 * (contract (Lten s' 1 1 1) (Mten cfg1 s' 1 1 1)
                 / (contract (Mten cfg1 s' 1 1 1) (Mten cfg1 s' 1 1 1) + 1))))"
proof -
  have r: "DynamicSmagorinsky cfg1 (\<lambda>n. filled 0) shear = Some (final_state cfg1 (\<lambda>n. filled 0) shear)"
    by (rule DynamicSmagorinsky_Some) (simp_all add: cfg1_def shear_def at_rest_def filled_def)
  have c: "(1, 1, 1) \<in> interior cfg1"
    by (simp add: interior_def cfg1_def LENN_def HIGG_def DEPP_def)
  have m: "magnitude (strain cfg1 (\<lambda>a b c. ru shear a b c * (1 / rho shear a b c))
             (\<lambda>a b c. rv shear a b c * (1 / rho shear a b c))
             (\<lambda>a b c. rw shear a b c * (1 / rho shear a b c)) 1 1 1) = 1"
    by (simp add: magnitude_def contract_def strain_def shear_def at_rest_def filled_def cfg1_def)
  have d: "DD cfg1 = 1" "small cfg1 = 1" "rho shear 1 1 1 = 1"
    by (simp_all add: cfg1_def shear_def at_rest_def filled_def)
  show ?thesis
    using r c coefficient_and_viscosity [OF r c] unfolding m d by simp
qed

text \<open>
  Claim C4. When the procedure returns, \<open>L11 + L22 + L33\<close> is zero at every cell inside the
  ghost layer (in exact arithmetic).
\<close>

theorem deviatoric_trace_zero:
  assumes "DynamicSmagorinsky cfg mem s = Some s'"
  assumes "(i, j, k) \<in> interior cfg"
  shows "L11 s' i j k + L22 s' i j k + L33 s' i j k = 0"
proof -
  have s': "s' = final_state cfg mem s"
    using assms(1) by (rule DynamicSmagorinsky_SomeD)
  let ?t = "before_coef cfg mem (prim_res (padded cfg) s)"
  have "L11 s' i j k = L11 ?t i j k + dev_trace ?t i j k"
       "L22 s' i j k = L22 ?t i j k + dev_trace ?t i j k"
       "L33 s' i j k = L33 ?t i j k + dev_trace ?t i j k"
    unfolding s' final_state_def using assms(2) by simp_all
  then show ?thesis
    unfolding dev_trace_def by (simp only: trace_cancel)
qed

text \<open>The same shear flow.\<close>

theorem deviatoric_trace_zero_witness:
  "\<exists>s'. DynamicSmagorinsky cfg1 (\<lambda>n. filled 0) shear = Some s' \<and> (1, 1, 1) \<in> interior cfg1 \<and>
     L11 s' 1 1 1 + L22 s' 1 1 1 + L33 s' 1 1 1 = 0"
proof -
  have r: "DynamicSmagorinsky cfg1 (\<lambda>n. filled 0) shear = Some (final_state cfg1 (\<lambda>n. filled 0) shear)"
    by (rule DynamicSmagorinsky_Some) (simp_all add: cfg1_def shear_def at_rest_def filled_def)
  have c: "(1, 1, 1) \<in> interior cfg1"
    by (simp add: interior_def cfg1_def LENN_def HIGG_def DEPP_def)
  show ?thesis
    using r c deviatoric_trace_zero [OF r c] by simp
qed

text \<open>
  Claim C7. For a density that is one positive constant over the padded grid and
  velocities \<open>ru/rho\<close>, \<open>rv/rho\<close>, \<open>rw/rho\<close> that are constant over the padded grid, the
  procedure returns, and at every cell inside the ghost layer the nine strain components of
  the unfiltered velocities are zero, \<open>magStrain\<close> is zero and \<open>mu_SGS\<close> is zero.
\<close>

theorem uniform_flow_no_viscosity:
  assumes "0 < small cfg" "0 < r"
  assumes "\<forall>(a, b, c) \<in> padded cfg. rho s a b c = r \<and>
             ru s a b c / rho s a b c = cu \<and> rv s a b c / rho s a b c = cv \<and>
             rw s a b c / rho s a b c = cw"
  shows "\<exists>s'. DynamicSmagorinsky cfg mem s = Some s' \<and>
           (\<forall>(i, j, k) \<in> interior cfg.
              strain cfg (u s') (v s') (w s') i j k = zero_tensor \<and>
              magStrain s' i j k = 0 \<and> mu_SGS s' i j k = 0)"
proof -
  let ?s = "final_state cfg mem s"
  have "\<forall>(a, b, c) \<in> padded cfg. rho s a b c \<noteq> 0"
    using assms(2,3) by fastforce
  then have r: "DynamicSmagorinsky cfg mem s = Some ?s"
    using assms(1) by (intro DynamicSmagorinsky_Some)
  have vel: "u ?s a b c = cu \<and> v ?s a b c = cv \<and> w ?s a b c = cw" if p: "(a, b, c) \<in> padded cfg" for a b c
  proof -
    have "ru s a b c / rho s a b c = cu \<and> rv s a b c / rho s a b c = cv \<and>
          rw s a b c / rho s a b c = cw"
      using assms(3) p by fast
    then show ?thesis
      using p by (simp add: final_velocities)
  qed
  have "strain cfg (u ?s) (v ?s) (w ?s) i j k = zero_tensor \<and>
        magStrain ?s i j k = 0 \<and> mu_SGS ?s i j k = 0" if c: "(i, j, k) \<in> interior cfg" for i j k
  proof -
    have 1: "strain cfg (u ?s) (v ?s) (w ?s) i j k = zero_tensor"
    proof (rule strain_constant [where cu = cu and cv = cv and cw = cw])
      fix a b c
      assume "(a, b, c) \<in> stencil_cells i j k"
      then have "(a, b, c) \<in> padded cfg"
        using interior_neighbours [OF c] by blast
      then show "u ?s a b c = cu \<and> v ?s a b c = cv \<and> w ?s a b c = cw"
        by (rule vel)
    qed
    then have 2: "magStrain ?s i j k = 0"
      by (simp add: final_magStrain [OF c] magnitude_zero)
    then show ?thesis
      using 1 c by (simp add: final_mu_SGS)
  qed
  then show ?thesis using r by auto
qed


text \<open>
  A fluid at rest of density two, with fresh arrays that hold threes.
\<close>

theorem uniform_flow_no_viscosity_witness:
  "\<exists>s'. DynamicSmagorinsky cfg1 (\<lambda>n. filled 3) (at_rest (filled 2)) = Some s' \<and>
     strain cfg1 (u s') (v s') (w s') 1 1 1 = zero_tensor \<and>
     magStrain s' 1 1 1 = 0 \<and> mu_SGS s' 1 1 1 = 0"
proof -
  have "\<forall>(a, b, c) \<in> padded cfg1. rho (at_rest (filled 2)) a b c = 2 \<and>
             ru (at_rest (filled 2)) a b c / rho (at_rest (filled 2)) a b c = 0 \<and>
             rv (at_rest (filled 2)) a b c / rho (at_rest (filled 2)) a b c = 0 \<and>
             rw (at_rest (filled 2)) a b c / rho (at_rest (filled 2)) a b c = 0"
    by (simp add: at_rest_def filled_def)
  from uniform_flow_no_viscosity [OF _ _ this, where mem = "\<lambda>n. filled 3"]
  obtain s' where "DynamicSmagorinsky cfg1 (\<lambda>n. filled 3) (at_rest (filled 2)) = Some s'"
    and "\<forall>(i, j, k) \<in> interior cfg1.
              strain cfg1 (u s') (v s') (w s') i j k = zero_tensor \<and>
              magStrain s' i j k = 0 \<and> mu_SGS s' i j k = 0"
    by (auto simp: cfg1_def)
  then show ?thesis using interior_cfg1 by blast
qed


text \<open>
  Claim C3, as amended. With \<open>small > 0\<close>, \<open>DD \<ge> 0\<close> and a density that is positive at every
  cell of the padded grid, the procedure returns and \<open>mu_SGS\<close> is not negative at any cell
  inside the ghost layer.
\<close>

theorem viscosity_nonneg:
  assumes "0 < small cfg" "0 \<le> DD cfg"
  assumes "\<forall>(a, b, c) \<in> padded cfg. 0 < rho s a b c"
  shows "\<exists>s'. DynamicSmagorinsky cfg mem s = Some s' \<and>
           (\<forall>(i, j, k) \<in> interior cfg. 0 \<le> mu_SGS s' i j k)"
proof -
  let ?s = "final_state cfg mem s"
  have "\<forall>(a, b, c) \<in> padded cfg. rho s a b c \<noteq> 0"
    using assms(3) by fastforce
  then have r: "DynamicSmagorinsky cfg mem s = Some ?s"
    using assms(1) by (intro DynamicSmagorinsky_Some)
  have "0 \<le> mu_SGS ?s i j k" if c: "(i, j, k) \<in> interior cfg" for i j k
  proof -
    have "(i, j, k) \<in> padded cfg"
      using c by (auto simp: interior_def padded_def)
    then have "0 \<le> rho s i j k"
      using assms(3) by fastforce
    moreover have "0 \<le> Cd_of cfg (before_coef cfg mem (prim_res (padded cfg) s)) i j k"
      by (simp add: Cd_of_def clip_range)
    moreover have "0 \<le> magStrain ?s i j k"
      by (simp add: final_magStrain [OF c] magnitude_nonneg)
    ultimately show ?thesis
      using c assms(2) by (simp add: final_mu_SGS)
  qed
  then show ?thesis using r by auto
qed


text \<open>
  The shear flow of density one.
\<close>

theorem viscosity_nonneg_witness:
  "\<exists>s'. DynamicSmagorinsky cfg1 (\<lambda>n. filled 0) shear = Some s' \<and> 0 \<le> mu_SGS s' 1 1 1"
proof -
  have "\<forall>(a, b, c) \<in> padded cfg1. 0 < rho shear a b c"
    by (simp add: shear_def at_rest_def filled_def)
  from viscosity_nonneg [OF _ _ this, where mem = "\<lambda>n. filled 0"]
  obtain s' where "DynamicSmagorinsky cfg1 (\<lambda>n. filled 0) shear = Some s'"
    and "\<forall>(i, j, k) \<in> interior cfg1. 0 \<le> mu_SGS s' i j k"
    by (auto simp: cfg1_def)
  then show ?thesis using interior_cfg1 by blast
qed


text \<open>
  Claim C3 as stated admits a density that is zero. For the fluid at rest of density zero
  the division \<open>1/rho\<close> has no value: the procedure yields no number for \<open>mu_SGS\<close>.
\<close>

theorem viscosity_zero_density_counterexample:
  "0 \<le> rho (at_rest (filled 0)) 1 1 1 \<and>
   DynamicSmagorinsky cfg1 (\<lambda>n. filled 0) (at_rest (filled 0)) = None"
proof -
  have "(1, 1, 1) \<in> padded cfg1"
    by (simp add: padded_def LENN_def HIGG_def DEPP_def)
  moreover have "rho (at_rest (filled 0)) 1 1 1 = 0"
    by (simp add: at_rest_def filled_def)
  ultimately have "\<not> (\<forall>(i, j, k) \<in> padded cfg1. rho (at_rest (filled 0)) i j k \<noteq> 0)"
    by blast
  then show ?thesis
    by (simp add: DynamicSmagorinsky_eq) (simp add: at_rest_def filled_def)
qed

text \<open>
  Claim C9. When the procedure returns, the four input arrays are what they were, every
  entry of \<open>mu_SGS\<close> outside the interior loop range is what it was, and the three passes of
  the filter leave their argument array as it was.
\<close>

theorem inputs_and_ghost_cells_untouched:
  assumes "DynamicSmagorinsky cfg mem s = Some s'"
  shows "rho s' = rho s \<and> ru s' = ru s \<and> rv s' = rv s \<and> rw s' = rw s \<and>
         (\<forall>i j k. (i, j, k) \<notin> interior cfg \<longrightarrow> mu_SGS s' i j k = mu_SGS s i j k) \<and>
         U (filter_run cfg h t) = U t"
proof -
  have s': "s' = final_state cfg mem s"
    using assms by (rule DynamicSmagorinsky_SomeD)
  show ?thesis
    unfolding s' by (simp add: final_mu_SGS filter_run_input)
qed


text \<open>
  The shear flow, the ghost cell \<open>(0,1,1)\<close> of \<open>mu_SGS\<close>, and the filter on the ramp.
\<close>

theorem inputs_and_ghost_cells_untouched_witness:
  "\<exists>s'. DynamicSmagorinsky cfg1 (\<lambda>n. filled 0) shear = Some s' \<and>
     rho s' = rho shear \<and> ru s' = ru shear \<and> rv s' = rv shear \<and> rw s' = rw shear \<and>
     mu_SGS s' 0 1 1 = 7 \<and>
     U (filter_run cfg1 FilterKer \<lparr>U = ramp, U_f = filled 5, U_ff = filled 9\<rparr>) = ramp"
proof -
  let ?s = "final_state cfg1 (\<lambda>n. filled 0) shear"
  have r: "DynamicSmagorinsky cfg1 (\<lambda>n. filled 0) shear = Some ?s"
    by (rule final_state_cfg1_shear)
  have g: "(0, 1, 1) \<notin> interior cfg1"
    by (simp add: interior_def)
  have m: "mu_SGS shear 0 1 1 = 7"
    by (simp add: shear_def at_rest_def filled_def)
  show ?thesis
    using r g m
      inputs_and_ghost_cells_untouched [OF r, of FilterKer "\<lparr>U = ramp, U_f = filled 5, U_ff = filled 9\<rparr>"]
    by simp
qed


text \<open>
  Claim C10. The change to primitive variables divides by \<open>rho\<close> at every cell
  \<open>i \<le> LEN+1\<close>, \<open>j \<le> HIG+1\<close>, \<open>k \<le> DEP+1\<close>: it has a result exactly when the density is
  nonzero at all of them, and without it the procedure has none. The cells that the
  central differences read all lie in this padded grid, and the corner \<open>(0,0,0)\<close> of the
  padded grid is not among them.
\<close>

theorem primitive_recovery_divides_everywhere:
  "(primitive_loop cfg s = None \<longleftrightarrow>
      (\<exists>i \<le> LEN cfg + 1. \<exists>j \<le> HIG cfg + 1. \<exists>k \<le> DEP cfg + 1. rho s i j k = 0)) \<and>
   (primitive_loop cfg s = None \<longrightarrow> DynamicSmagorinsky cfg mem s = None) \<and>
   difference_cells cfg \<subseteq> padded cfg \<and>
   (0, 0, 0) \<in> padded cfg - difference_cells cfg"
proof -
  have "difference_cells cfg \<subseteq> padded cfg"
    using interior_neighbours by (fastforce simp: difference_cells_def)
  moreover have "(0, 0, 0) \<in> padded cfg - difference_cells cfg"
    by (auto simp: padded_def difference_cells_def interior_def stencil_cells_def)
  moreover
  have "(\<exists>(i, j, k) \<in> padded cfg. rho s i j k = 0) \<longleftrightarrow>
        (\<exists>i \<le> LEN cfg + 1. \<exists>j \<le> HIG cfg + 1. \<exists>k \<le> DEP cfg + 1. rho s i j k = 0)"
  proof
    assume "\<exists>(i, j, k) \<in> padded cfg. rho s i j k = 0"
    then obtain i j k where "(i, j, k) \<in> padded cfg" "rho s i j k = 0"
      by auto
    then have "i \<le> LEN cfg + 1 \<and> j \<le> HIG cfg + 1 \<and> k \<le> DEP cfg + 1 \<and> rho s i j k = 0"
      by (simp add: padded_def LENN_def HIGG_def DEPP_def)
    then show "\<exists>i \<le> LEN cfg + 1. \<exists>j \<le> HIG cfg + 1. \<exists>k \<le> DEP cfg + 1. rho s i j k = 0"
      by blast
  next
    assume "\<exists>i \<le> LEN cfg + 1. \<exists>j \<le> HIG cfg + 1. \<exists>k \<le> DEP cfg + 1. rho s i j k = 0"
    then obtain i j k where "i \<le> LEN cfg + 1" "j \<le> HIG cfg + 1" "k \<le> DEP cfg + 1"
      "rho s i j k = 0"
      by blast
    then have "(i, j, k) \<in> padded cfg \<and> rho s i j k = 0"
      by (simp add: padded_def LENN_def HIGG_def DEPP_def)
    then show "\<exists>(i, j, k) \<in> padded cfg. rho s i j k = 0"
      by blast
  qed
  moreover have "primitive_loop cfg s = None \<longleftrightarrow> (\<exists>(i, j, k) \<in> padded cfg. rho s i j k = 0)"
    by (auto simp add: primitive_loop_eq)
  moreover have "primitive_loop cfg s = None \<longrightarrow> DynamicSmagorinsky cfg mem s = None"
    by (simp add: DynamicSmagorinsky_def)
  ultimately show ?thesis
    by blast
qed


text \<open>
  A density that vanishes only in the corner \<open>(0,0,0)\<close> of the ghost layer: the change to
  primitive variables fails, although the density is nonzero at the interior cell and at
  the six cells its central differences read.
\<close>

theorem primitive_recovery_divides_everywhere_witness:
  "primitive_loop cfg1 corner_hole = None \<and>
   DynamicSmagorinsky cfg1 (\<lambda>n. filled 0) corner_hole = None \<and>
   (1, 1, 1) \<in> interior cfg1 \<and>
   rho corner_hole 1 1 1 \<noteq> 0 \<and>
   rho corner_hole 0 1 1 \<noteq> 0 \<and> rho corner_hole 2 1 1 \<noteq> 0 \<and>
   rho corner_hole 1 0 1 \<noteq> 0 \<and> rho corner_hole 1 2 1 \<noteq> 0 \<and>
   rho corner_hole 1 1 0 \<noteq> 0 \<and> rho corner_hole 1 1 2 \<noteq> 0"
proof -
  have z: "rho corner_hole 0 0 0 = 0"
    by (simp add: corner_hole_def at_rest_def)
  have "\<exists>i \<le> LEN cfg1 + 1. \<exists>j \<le> HIG cfg1 + 1. \<exists>k \<le> DEP cfg1 + 1. rho corner_hole i j k = 0"
    using z by blast
  then have "primitive_loop cfg1 corner_hole = None"
    "DynamicSmagorinsky cfg1 (\<lambda>n. filled 0) corner_hole = None"
    using primitive_recovery_divides_everywhere [of cfg1 corner_hole "\<lambda>n. filled 0"] by blast+
  moreover have "rho corner_hole 1 1 1 \<noteq> 0 \<and>
   rho corner_hole 0 1 1 \<noteq> 0 \<and> rho corner_hole 2 1 1 \<noteq> 0 \<and>
   rho corner_hole 1 0 1 \<noteq> 0 \<and> rho corner_hole 1 2 1 \<noteq> 0 \<and>
   rho corner_hole 1 1 0 \<noteq> 0 \<and> rho corner_hole 1 1 2 \<noteq> 0"
    by (simp add: corner_hole_def at_rest_def)
  ultimately show ?thesis
    using interior_cfg1 by blast
qed


text \<open>
  Claim C6. The claim fails on the program: for a fluid at rest on the grid with one
  interior cell per axis, when two of the buffers \<open>U_\<close> that \<open>filter_\<close> obtains hold threes
  and all other fresh arrays hold zeros, the procedure returns with \<open>L12 = 1\<close>, \<open>L21 = 0\<close>,
  \<open>M12 = -1\<close> and \<open>M21 = 0\<close> at the interior cell. The filtered products \<open>uv_\<close> and \<open>vu_\<close>, and
  likewise \<open>A12_\<close> and \<open>A21_\<close>, each take in a cell of their own buffer that no pass assigned.
\<close>

theorem tensors_asymmetric:
  "\<exists>s'. DynamicSmagorinsky cfg1 (\<lambda>n. if n = 8 \<or> n = 26 then filled 3 else filled 0)
          (at_rest (filled 1)) = Some s' \<and>
     (1, 1, 1) \<in> interior cfg1 \<and> L12 s' 1 1 1 = 1 \<and> L21 s' 1 1 1 = 0 \<and>
     c12 (Mten cfg1 s' 1 1 1) = - 1 \<and> c21 (Mten cfg1 s' 1 1 1) = 0"
proof -
  let ?mem = "\<lambda>n::nat. if n = 8 \<or> n = 26 then filled 3 else filled 0"
  let ?s = "final_state cfg1 ?mem (at_rest (filled 1))"
  let ?s2 = "product_res (padded cfg1) (prim_res (padded cfg1) (at_rest (filled 1)))"
  let ?s3 = "filter_velocities cfg1 ?mem ?s2"
  let ?s4 = "strain_res cfg1 (interior cfg1) ?s3"
  have r: "DynamicSmagorinsky cfg1 ?mem (at_rest (filled 1)) = Some ?s"
    by (rule DynamicSmagorinsky_Some) (simp_all add: cfg1_def at_rest_def filled_def)
  have c: "(1, 1, 1) \<in> interior cfg1"
    by (simp add: interior_def cfg1_def LENN_def HIGG_def DEPP_def)
  have prod: "L12 ?s2 = (\<lambda>a b c. 0)" "L21 ?s2 = (\<lambda>a b c. 0)"
    by (simp_all add: fun_eq_iff at_rest_velocities) (simp_all add: at_rest_def filled_def)
  have vel: "u_f ?s3 = (\<lambda>a b c. 0)" "v_f ?s3 = (\<lambda>a b c. 0)" "w_f ?s3 = (\<lambda>a b c. 0)"
    by (simp_all add: at_rest_velocities filter_f_zero)
  have uv: "uv_f ?s3 1 1 1 = 1" "vu_f ?s3 1 1 1 = 0"
    by (simp_all add: prod filter_f_cfg1 [unfolded One_nat_def] filled_apply)
  have L: "L12 ?s 1 1 1 = uv_f ?s3 1 1 1 - u_f ?s3 1 1 1 * v_f ?s3 1 1 1"
          "L21 ?s 1 1 1 = vu_f ?s3 1 1 1 - v_f ?s3 1 1 1 * u_f ?s3 1 1 1"
    unfolding final_state_def before_coef_eq using c by simp_all
  have A: "A12 ?s4 = (\<lambda>a b c. 0)" "A21 ?s4 = (\<lambda>a b c. 0)"
    by (simp_all add: fun_eq_iff at_rest_velocities strain_zero_fields)
       (simp_all add: at_rest_def filled_def)
  have B: "B12_f ?s4 1 1 1 = 0" "B21_f ?s4 1 1 1 = 0"
    using c by (simp_all add: at_rest_velocities filter_f_zero strain_zero_fields)
  have Af: "A12_f (filter_A cfg1 ?mem ?s4) 1 1 1 = 1" "A21_f (filter_A cfg1 ?mem ?s4) 1 1 1 = 0"
    by (simp_all add: A filter_f_cfg1 [unfolded One_nat_def] filled_apply)
  have M: "c12 (Mten cfg1 ?s 1 1 1) = DD cfg1 * (4 * B12_f ?s4 1 1 1 - A12_f (filter_A cfg1 ?mem ?s4) 1 1 1)"
          "c21 (Mten cfg1 ?s 1 1 1) = DD cfg1 * (4 * B21_f ?s4 1 1 1 - A21_f (filter_A cfg1 ?mem ?s4) 1 1 1)"
    unfolding final_state_def before_coef_eq by (simp_all add: Mten_def)
  have "L12 ?s 1 1 1 = 1" "L21 ?s 1 1 1 = 0"
    unfolding L uv vel by simp_all
  moreover have "c12 (Mten cfg1 ?s 1 1 1) = - 1" "c21 (Mten cfg1 ?s 1 1 1) = 0"
    unfolding M B Af by (simp_all add: cfg1_def)
  ultimately show ?thesis using r c by blast
qed

end
